theory Spec2Isabelle
  imports Complex_Main "HOL-Library.Sublist" "HOL-Library.Multiset"
begin

section \<open>Python strings\<close>

text \<open>
  A Python \<open>str\<close> is a sequence of code points. The model keeps the code points below 256
  (ASCII and the Latin-1 supplement), one \<open>char\<close> per code point; the names the engine gives
  to containers and the tags it gives to images are ASCII. On that range \<open>str.lower()\<close>
  works code point by code point: \<open>A\<close>..\<open>Z\<close> (65..90) and the Latin-1 capitals
  (192..222 without the multiplication sign 215) move up by 32, everything else stays.
\<close>

definition py_lower_char :: "char \<Rightarrow> char" where
  "py_lower_char c =
     (let n = (of_char c :: nat)
      in if (65 \<le> n \<and> n \<le> 90) \<or> (192 \<le> n \<and> n \<le> 222 \<and> n \<noteq> 215)
         then char_of (n + 32) else c)"

definition py_lower :: "string \<Rightarrow> string" where
  "py_lower s = map py_lower_char s"

text \<open>The operator \<open>s in t\<close> on two strings: \<open>s\<close> occurs in \<open>t\<close> as a contiguous run.\<close>

fun str_in :: "string \<Rightarrow> string \<Rightarrow> bool" where
  "str_in s [] = (s = [])"
| "str_in s (c # t) = (prefix s (c # t) \<or> str_in s t)"

section \<open>Data model\<close>

text \<open>
  The objects of the Docker SDK as \<open>main\<close> reads them: a container with \<open>id\<close>,
  \<open>short_id\<close>, \<open>name\<close>, \<open>image.tags\<close> and \<open>status\<close>; an image with \<open>id\<close>,
  \<open>short_id\<close> and \<open>tags\<close>.
\<close>

record container =
  cid :: string
  short_id :: string
  name :: string
  image_tags :: "string list"
  status :: string

record image =
  image_id :: string
  image_short_id :: string
  tags :: "string list"

section \<open>The two search filters of \<open>main\<close>\<close>

text \<open>
  \<^verbatim>\<open>filtered = [c for c in containers if search.lower() in c.name.lower()] if search else containers\<close>
\<close>

definition filtered :: "string \<Rightarrow> container list \<Rightarrow> container list" where
  "filtered search containers =
     (if search \<noteq> [] then filter (\<lambda>c. str_in (py_lower search) (py_lower (name c))) containers
      else containers)"

text \<open>
  \<^verbatim>\<open>filtered_img = [i for i in images if any(search_img in tag for tag in i.tags)] if search_img else images\<close>
\<close>

definition filtered_img :: "string \<Rightarrow> image list \<Rightarrow> image list" where
  "filtered_img search_img images =
     (if search_img \<noteq> [] then filter (\<lambda>i. list_ex (\<lambda>tag. str_in search_img tag) (tags i)) images
      else images)"

section \<open>Exceptions\<close>

text \<open>
  The failures the program meets are instances of Python's \<open>Exception\<close>: those of the
  Docker SDK (\<open>DockerException\<close> and its subclass \<open>APIError\<close>), those of the
  interpreter (\<open>KeyError\<close>, \<open>TypeError\<close>, \<open>UnboundLocalError\<close>, \<open>StopIteration\<close>)
  and any other one (socket, SSH and HTTP transport errors, decoding errors), which carries
  its text. \<open>py_str\<close> is \<open>str(e)\<close>: a \<open>KeyError\<close> prints its key quoted, an
  \<open>UnboundLocalError\<close> the interpreter's sentence about the variable.
\<close>

datatype exn =
    DockerException string
  | APIError string
  | KeyError string
  | TypeError string
  | UnboundLocalError string
  | StopIteration
  | OtherException string

fun isinstance_DockerException :: "exn \<Rightarrow> bool" where
  "isinstance_DockerException (DockerException m) = True"
| "isinstance_DockerException (APIError m) = True"
| "isinstance_DockerException e = False"

fun py_str :: "exn \<Rightarrow> string" where
  "py_str (DockerException m) = m"
| "py_str (APIError m) = m"
| "py_str (KeyError k) = CHR 0x27 # k @ [CHR 0x27]"
| "py_str (TypeError m) = m"
| "py_str (UnboundLocalError x) =
     ''cannot access local variable '' @ CHR 0x27 # x @ CHR 0x27
       # '' where it is not associated with a value''"
| "py_str StopIteration = []"
| "py_str (OtherException m) = m"

section \<open>The statistics sample\<close>

text \<open>
  \<open>container.stats(stream=False)\<close> returns the decoded JSON object of the engine. Its
  numbers are integers (byte and nanosecond counters). The pairs of a \<open>JDict\<close> are the
  items of a parsed object, with distinct keys. A subscript with a string key raises
  \<open>KeyError\<close> on a dictionary without the key and \<open>TypeError\<close> on anything that is not a
  dictionary.
\<close>

datatype json =
    JNull
  | JBool bool
  | JInt int
  | JStr string
  | JList "json list"
  | JDict "(string \<times> json) list"

fun subscript :: "json \<Rightarrow> string \<Rightarrow> exn + json" where
  "subscript (JDict kvs) k = (case map_of kvs k of None \<Rightarrow> Inl (KeyError k) | Some v \<Rightarrow> Inr v)"
| "subscript (JList xs) k = Inl (TypeError ''list indices must be integers or slices, not str'')"
| "subscript (JStr s) k = Inl (TypeError ''string indices must be integers'')"
| "subscript JNull k = Inl (TypeError ''NoneType object is not subscriptable'')"
| "subscript (JBool b) k = Inl (TypeError ''bool object is not subscriptable'')"
| "subscript (JInt n) k = Inl (TypeError ''int object is not subscriptable'')"

text \<open>
  \<open>x / (1024 ** 2)\<close>: true division of a number by 1048576 (a \<open>bool\<close> is an \<open>int\<close> in
  Python). The quotient is kept exact; the float Python computes equals it for every
  numerator below \<open>2 ^ 53\<close>.
\<close>

fun truediv :: "json \<Rightarrow> int \<Rightarrow> exn + rat" where
  "truediv (JInt n) k = Inr (of_int n / of_int k)"
| "truediv (JBool b) k = Inr (of_int (if b then 1 else 0) / of_int k)"
| "truediv v k = Inl (TypeError ''unsupported operand type(s) for /'')"

text \<open>
  \<^verbatim>\<open>mem = stats["memory_stats"]["usage"] / (1024 ** 2)\<close>
  \<^verbatim>\<open>cpu = stats["cpu_stats"]["cpu_usage"]["total_usage"]\<close>
\<close>

definition stats_values :: "json \<Rightarrow> exn + (rat \<times> json)" where
  "stats_values stats =
     (case subscript stats ''memory_stats'' of Inl x \<Rightarrow> Inl x | Inr memory_stats \<Rightarrow>
      case subscript memory_stats ''usage'' of Inl x \<Rightarrow> Inl x | Inr usage \<Rightarrow>
      case truediv usage (1024 ^ 2) of Inl x \<Rightarrow> Inl x | Inr mem \<Rightarrow>
      case subscript stats ''cpu_stats'' of Inl x \<Rightarrow> Inl x | Inr cpu_stats \<Rightarrow>
      case subscript cpu_stats ''cpu_usage'' of Inl x \<Rightarrow> Inl x | Inr cpu_usage \<Rightarrow>
      case subscript cpu_usage ''total_usage'' of Inl x \<Rightarrow> Inl x | Inr cpu \<Rightarrow>
      Inr (mem, cpu))"

section \<open>The two backends\<close>

text \<open>
  The Docker engine and the SSH server are outside the program. Every call into them is a
  function of the outside world's state \<open>'e\<close> that returns the new state and either the
  exception the library raises or the value it returns. A \<open>client\<close> is the
  \<open>DockerClient\<close> object: \<open>client_id\<close> is its identity, \<open>base_url\<close> the URI it was
  built for. The methods of a container object (\<open>start\<close>, \<open>stop\<close>, \<open>restart\<close>,
  \<open>remove(force=True)\<close>, \<open>stats(stream=False)\<close>, \<open>logs(tail=50)\<close>) address the
  container by its id. Reading a byte stream and decoding it (\<open>logs(...).decode()\<close>,
  \<open>exec_start(...).decode()\<close>, \<open>stdout.read().decode()\<close>) is one step, which fails when
  either part does.
\<close>

record client =
  client_id :: nat
  base_url :: string

record 'e docker =
  docker_client_init :: "string \<Rightarrow> 'e \<Rightarrow> (exn + unit) \<times> 'e"
  client_ping :: "client \<Rightarrow> 'e \<Rightarrow> (exn + unit) \<times> 'e"
  containers_list :: "client \<Rightarrow> 'e \<Rightarrow> (exn + container list) \<times> 'e"
  container_start :: "string \<Rightarrow> 'e \<Rightarrow> (exn + unit) \<times> 'e"
  container_stop :: "string \<Rightarrow> 'e \<Rightarrow> (exn + unit) \<times> 'e"
  container_restart :: "string \<Rightarrow> 'e \<Rightarrow> (exn + unit) \<times> 'e"
  container_remove :: "string \<Rightarrow> 'e \<Rightarrow> (exn + unit) \<times> 'e"
  container_stats :: "string \<Rightarrow> 'e \<Rightarrow> (exn + json) \<times> 'e"
  container_logs :: "string \<Rightarrow> nat \<Rightarrow> 'e \<Rightarrow> (exn + string) \<times> 'e"
  containers_run :: "client \<Rightarrow> string \<Rightarrow> string option \<Rightarrow> 'e \<Rightarrow> (exn + container) \<times> 'e"
  images_list :: "client \<Rightarrow> 'e \<Rightarrow> (exn + image list) \<times> 'e"
  images_remove :: "client \<Rightarrow> string \<Rightarrow> 'e \<Rightarrow> (exn + unit) \<times> 'e"
  images_pull :: "client \<Rightarrow> string \<Rightarrow> 'e \<Rightarrow> (exn + unit) \<times> 'e"
  api_exec_create :: "client \<Rightarrow> string \<Rightarrow> string \<Rightarrow> 'e \<Rightarrow> (exn + string) \<times> 'e"
  api_exec_start :: "client \<Rightarrow> string \<Rightarrow> 'e \<Rightarrow> (exn + string) \<times> 'e"

text \<open>
  The SSH client: \<open>connect(host, username, password, timeout)\<close>, \<open>exec_command\<close>, the
  two output streams of the command, each for the host and command line at hand, and
  \<open>close\<close>. Building the client object and setting its host key policy touch nothing
  outside the program.
\<close>

record 'e ssh_client =
  ssh_connect :: "string \<Rightarrow> string \<Rightarrow> string \<Rightarrow> nat \<Rightarrow> 'e \<Rightarrow> (exn + unit) \<times> 'e"
  ssh_exec_command :: "string \<Rightarrow> string \<Rightarrow> 'e \<Rightarrow> (exn + unit) \<times> 'e"
  stdout_read_decode :: "string \<Rightarrow> string \<Rightarrow> 'e \<Rightarrow> (exn + string) \<times> 'e"
  stderr_read_decode :: "string \<Rightarrow> string \<Rightarrow> 'e \<Rightarrow> (exn + string) \<times> 'e"
  ssh_close :: "string \<Rightarrow> 'e \<Rightarrow> (exn + unit) \<times> 'e"

section \<open>What a run does and shows\<close>

text \<open>
  The calls a run makes into the backends, in order, and what it puts on the page. Layout
  (title, tabs, columns, sub-headers) is not recorded. Where the page text formats a value
  that is not a string, the event keeps the value: the image tags and status of the selected
  container, a row of the image table, the statistics pair, and the one warning whose text is
  outside the modelled character range.
\<close>

datatype call =
    DockerClientInit string
  | ClientPing string
  | ContainersList
  | ContainerStart string
  | ContainerStop string
  | ContainerRestart string
  | ContainerRemove string
  | ContainerStats string
  | ContainerLogs string nat
  | ContainersRun string "string option"
  | ImagesList
  | ImagesRemove string
  | ImagesPull string
  | ExecCreate string string
  | ExecStart string
  | SshConnect string string
  | SshExecCommand string string
  | SshReadStdout
  | SshReadStderr
  | SshClose

datatype ui_event =
    StError string
  | StSuccess string
  | StInfo string
  | StCode string
  | StWarningSshLimited
  | StWriteImage "string list"
  | StWriteStatus string
  | StInfoStats rat json
  | StWriteImageRow string "string list"
  | StDownload string string

fun is_error :: "ui_event \<Rightarrow> bool" where
  "is_error (StError m) = True"
| "is_error ev = False"

fun is_ssh_call :: "call \<Rightarrow> bool" where
  "is_ssh_call (SshConnect h u) = True"
| "is_ssh_call (SshExecCommand h c) = True"
| "is_ssh_call SshReadStdout = True"
| "is_ssh_call SshReadStderr = True"
| "is_ssh_call SshClose = True"
| "is_ssh_call c = False"

text \<open>
  The state a run works in: the outside world, the two logs, the memo table of
  \<open>st.cache_resource\<close> (argument and cached return value, oldest first) and the identity the
  next object gets.
\<close>

record 'e world =
  engine :: 'e
  calls :: "call list"
  ui :: "ui_event list"
  cache :: "(string \<times> client option) list"
  next_id :: nat

text \<open>
  A statement returns, raises, or stops the script (\<open>st.stop()\<close>, which no
  \<open>except Exception\<close> catches).
\<close>

datatype 'a res = Ret 'a | Raise exn | Stop

definition ret :: "'a \<Rightarrow> 's \<Rightarrow> 'a res \<times> 's" where
  "ret a s = (Ret a, s)"

definition raise :: "exn \<Rightarrow> 's \<Rightarrow> 'a res \<times> 's" where
  "raise x s = (Raise x, s)"

definition st_stop :: "'s \<Rightarrow> 'a res \<times> 's" where
  "st_stop s = (Stop, s)"

definition and_then :: "('s \<Rightarrow> 'a res \<times> 's) \<Rightarrow> ('a \<Rightarrow> 's \<Rightarrow> 'b res \<times> 's) \<Rightarrow> 's \<Rightarrow> 'b res \<times> 's" where
  "and_then m k s =
     (case m s of
        (Ret a, s') \<Rightarrow> k a s'
      | (Raise x, s') \<Rightarrow> (Raise x, s')
      | (Stop, s') \<Rightarrow> (Stop, s'))"

text \<open>\<open>try: m except C as e: h e\<close>, with \<open>catches\<close> the instances of \<open>C\<close>.\<close>

definition try_except :: "(exn \<Rightarrow> bool) \<Rightarrow> ('s \<Rightarrow> 'a res \<times> 's) \<Rightarrow> (exn \<Rightarrow> 's \<Rightarrow> 'a res \<times> 's) \<Rightarrow> 's \<Rightarrow> 'a res \<times> 's" where
  "try_except catches m h s =
     (case m s of
        (Raise x, s') \<Rightarrow> if catches x then h x s' else (Raise x, s')
      | (Ret a, s') \<Rightarrow> (Ret a, s')
      | (Stop, s') \<Rightarrow> (Stop, s'))"

definition except_Exception :: "exn \<Rightarrow> bool" where
  "except_Exception x = True"

definition when_true :: "bool \<Rightarrow> ('s \<Rightarrow> unit res \<times> 's) \<Rightarrow> 's \<Rightarrow> unit res \<times> 's" where
  "when_true b m = (if b then m else ret ())"

definition lift_py :: "exn + 'a \<Rightarrow> 's \<Rightarrow> 'a res \<times> 's" where
  "lift_py r = (case r of Inl x \<Rightarrow> raise x | Inr a \<Rightarrow> ret a)"

definition invoke :: "call \<Rightarrow> ('e \<Rightarrow> (exn + 'a) \<times> 'e) \<Rightarrow> 'e world \<Rightarrow> 'a res \<times> 'e world" where
  "invoke c f w =
     (case f (engine w) of
        (Inl x, e') \<Rightarrow> (Raise x, w\<lparr>engine := e', calls := calls w @ [c]\<rparr>)
      | (Inr a, e') \<Rightarrow> (Ret a, w\<lparr>engine := e', calls := calls w @ [c]\<rparr>))"

definition show_ui :: "ui_event \<Rightarrow> 'e world \<Rightarrow> unit res \<times> 'e world" where
  "show_ui ev w = (Ret (), w\<lparr>ui := ui w @ [ev]\<rparr>)"

definition new_client :: "string \<Rightarrow> 'e world \<Rightarrow> client res \<times> 'e world" where
  "new_client uri w =
     (Ret \<lparr>client_id = next_id w, base_url = uri\<rparr>, w\<lparr>next_id := Suc (next_id w)\<rparr>)"

section \<open>\<open>get_docker_client_via_tcp\<close>\<close>

text \<open>
  The statements of the \<open>try\<close> block: build the client for the URI and ping the engine.
\<close>

definition connect_and_ping :: "'e docker \<Rightarrow> string \<Rightarrow> 'e world \<Rightarrow> client res \<times> 'e world" where
  "connect_and_ping d docker_host =
     and_then (invoke (DockerClientInit docker_host) (docker_client_init d docker_host)) (\<lambda>_.
     and_then (new_client docker_host) (\<lambda>c.
     and_then (invoke (ClientPing docker_host) (client_ping d c)) (\<lambda>_.
     ret c)))"

text \<open>
  The function body: the client, or on a \<open>DockerException\<close> the error on the page and
  \<open>None\<close>. Any other exception leaves the function.
\<close>

definition get_docker_client_via_tcp_body :: "'e docker \<Rightarrow> string \<Rightarrow> 'e world \<Rightarrow> client option res \<times> 'e world" where
  "get_docker_client_via_tcp_body d docker_host =
     try_except isinstance_DockerException
       (and_then (connect_and_ping d docker_host) (\<lambda>c. ret (Some c)))
       (\<lambda>e. and_then
          (show_ui (StError (''Failed to connect to Docker daemon at '' @ docker_host
                       @ ''.'' @ CHR 0x0A # ''Error: '' @ py_str e)))
          (\<lambda>_. ret None))"

text \<open>
  The decorator \<open>@st.cache_resource\<close>: the return value is stored under the argument and
  returned from the table on every later call with that argument, without running the body;
  a call that raises stores nothing. The page log holds what the statements of a run put on
  the page; elements that the library shows again on a cache hit are not recorded.
\<close>

definition cache_resource :: "(string \<Rightarrow> 'e world \<Rightarrow> client option res \<times> 'e world) \<Rightarrow> string \<Rightarrow> 'e world \<Rightarrow> client option res \<times> 'e world" where
  "cache_resource f arg w =
     (case map_of (cache w) arg of
        Some v \<Rightarrow> (Ret v, w)
      | None \<Rightarrow>
          (case f arg w of
             (Ret v, w') \<Rightarrow> (Ret v, w'\<lparr>cache := cache w' @ [(arg, v)]\<rparr>)
           | (Raise x, w') \<Rightarrow> (Raise x, w')
           | (Stop, w') \<Rightarrow> (Stop, w')))"

definition get_docker_client_via_tcp :: "'e docker \<Rightarrow> string \<Rightarrow> 'e world \<Rightarrow> client option res \<times> 'e world" where
  "get_docker_client_via_tcp d = cache_resource (get_docker_client_via_tcp_body d)"

section \<open>\<open>run_ssh_command\<close>\<close>

definition run_ssh_command :: "'e ssh_client \<Rightarrow> string \<Rightarrow> string \<Rightarrow> string \<Rightarrow> string \<Rightarrow> 'e world \<Rightarrow> string res \<times> 'e world" where
  "run_ssh_command t host username password command =
     try_except except_Exception
       (and_then (invoke (SshConnect host username) (ssh_connect t host username password 10)) (\<lambda>_.
        and_then (invoke (SshExecCommand host command) (ssh_exec_command t host command)) (\<lambda>_.
        and_then (invoke SshReadStdout (stdout_read_decode t host command)) (\<lambda>output.
        and_then (invoke SshReadStderr (stderr_read_decode t host command)) (\<lambda>error.
        and_then (invoke SshClose (ssh_close t host)) (\<lambda>_.
        ret (if output \<noteq> [] then output else error)))))))
       (\<lambda>e. ret (''SSH connection error: '' @ py_str e))"

section \<open>\<open>main\<close>\<close>

text \<open>
  What the widgets return in one run of the script: the radio choice, the text inputs, the
  buttons clicked, the check box, and for each select box the position chosen (the first
  option when the position is past the end).
\<close>

datatype mode = LocalDockerTCP | SSHToRemoteDocker

record inputs =
  mode_radio :: mode
  docker_host_input :: string
  ssh_host_input :: string
  ssh_user_input :: string
  ssh_pass_input :: string
  test_ssh_button :: bool
  search_input :: string
  select_container_box :: nat
  start_button :: bool
  stop_button :: bool
  restart_button :: bool
  remove_button :: bool
  live_stats_checkbox :: bool
  img_input :: string
  cmd_input :: string
  create_run_button :: bool
  search_img_input :: string
  remove_img_buttons :: "string list"
  new_image_input :: string
  pull_button :: bool
  log_container_box :: nat
  download_button :: bool
  exec_container_box :: nat
  command_input :: string
  run_command_button :: bool

definition selectbox :: "'a list \<Rightarrow> nat \<Rightarrow> 'a option" where
  "selectbox options i =
     (if options = [] then None
      else Some (options ! (if i < length options then i else 0)))"

text \<open>A dictionary built by a comprehension: a repeated key keeps its place and takes the later value.\<close>

fun dict_set :: "('k \<times> 'v) list \<Rightarrow> 'k \<Rightarrow> 'v \<Rightarrow> ('k \<times> 'v) list" where
  "dict_set [] k v = [(k, v)]"
| "dict_set ((k', v') # kvs) k v =
     (if k' = k then (k, v) # kvs else (k', v') # dict_set kvs k v)"

text \<open>
  The local variable \<open>client\<close> is bound only in the TCP branch; \<open>None\<close> stands for the
  unbound variable, whose use raises \<open>UnboundLocalError\<close>.
\<close>

definition local_client :: "client option \<Rightarrow> 's \<Rightarrow> client res \<times> 's" where
  "local_client v = (case v of None \<Rightarrow> raise (UnboundLocalError ''client'') | Some c \<Rightarrow> ret c)"

text \<open>
  Lines 55 to 70: the connection. In TCP mode the script stops when no client came back.
  In SSH mode the one thing offered is the test button, which runs \<open>docker ps -a\<close>.
\<close>

definition connection :: "'e docker \<Rightarrow> 'e ssh_client \<Rightarrow> inputs \<Rightarrow> 'e world \<Rightarrow> client option res \<times> 'e world" where
  "connection d t inp =
     (if mode_radio inp = LocalDockerTCP then
        and_then (get_docker_client_via_tcp d (docker_host_input inp)) (\<lambda>c.
        if c = None then st_stop else ret c)
      else
        and_then
          (when_true (test_ssh_button inp)
             (and_then
                (run_ssh_command t (ssh_host_input inp) (ssh_user_input inp) (ssh_pass_input inp)
                   ''docker ps -a'')
                (\<lambda>result. show_ui (StCode result)))) (\<lambda>_.
        and_then (show_ui StWarningSshLimited) (\<lambda>_.
        ret None)))"

text \<open>
  \<^verbatim>\<open>containers = client.containers.list(all=True) if mode == "Local Docker TCP" else []\<close>
\<close>

definition containers_listing :: "'e docker \<Rightarrow> mode \<Rightarrow> client option \<Rightarrow> 'e world \<Rightarrow> container list res \<times> 'e world" where
  "containers_listing d m v =
     (if m = LocalDockerTCP then
        and_then (local_client v) (\<lambda>c. invoke ContainersList (containers_list d c))
      else ret [])"

text \<open>
  \<^verbatim>\<open>images = client.images.list() if mode == "Local Docker TCP" else []\<close>
\<close>

definition images_listing :: "'e docker \<Rightarrow> mode \<Rightarrow> client option \<Rightarrow> 'e world \<Rightarrow> image list res \<times> 'e world" where
  "images_listing d m v =
     (if m = LocalDockerTCP then
        and_then (local_client v) (\<lambda>c. invoke ImagesList (images_list d c))
      else ret [])"

text \<open>Lines 91 to 99: the four buttons of the selected container.\<close>

definition container_buttons :: "'e docker \<Rightarrow> inputs \<Rightarrow> container \<Rightarrow> 'e world \<Rightarrow> unit res \<times> 'e world" where
  "container_buttons d inp c =
     and_then
       (when_true (start_button inp)
          (and_then (invoke (ContainerStart (cid c)) (container_start d (cid c)))
             (\<lambda>_. show_ui (StSuccess ''Started.'')))) (\<lambda>_.
     and_then
       (when_true (stop_button inp)
          (and_then (invoke (ContainerStop (cid c)) (container_stop d (cid c)))
             (\<lambda>_. show_ui (StSuccess ''Stopped.'')))) (\<lambda>_.
     and_then
       (when_true (restart_button inp)
          (and_then (invoke (ContainerRestart (cid c)) (container_restart d (cid c)))
             (\<lambda>_. show_ui (StSuccess ''Restarted.'')))) (\<lambda>_.
     when_true (remove_button inp)
       (and_then (invoke (ContainerRemove (cid c)) (container_remove d (cid c)))
          (\<lambda>_. show_ui (StSuccess ''Removed.''))))))"

text \<open>Lines 102 to 106: the statistics of the selected container.\<close>

definition live_stats :: "'e docker \<Rightarrow> inputs \<Rightarrow> container \<Rightarrow> 'e world \<Rightarrow> unit res \<times> 'e world" where
  "live_stats d inp c =
     when_true (live_stats_checkbox inp)
       (and_then (invoke (ContainerStats (cid c)) (container_stats d (cid c))) (\<lambda>stats.
        and_then (lift_py (stats_values stats)) (\<lambda>(mem, cpu).
        show_ui (StInfoStats mem cpu))))"

text \<open>Lines 84 to 106: the panel of the selected container.\<close>

definition container_panel :: "'e docker \<Rightarrow> inputs \<Rightarrow> container list \<Rightarrow> 'e world \<Rightarrow> unit res \<times> 'e world" where
  "container_panel d inp fl =
     (let container_options =
            foldl (\<lambda>opts c. dict_set opts (name c @ '' ('' @ short_id c @ '')'') c) [] fl
      in case selectbox (map fst container_options) (select_container_box inp) of
           None \<Rightarrow> raise (KeyError ''None'')
         | Some selected \<Rightarrow>
             (case map_of container_options selected of
                None \<Rightarrow> raise (KeyError selected)
              | Some c \<Rightarrow>
                  and_then (show_ui (StWriteImage (image_tags c))) (\<lambda>_.
                  and_then (show_ui (StWriteStatus (status c))) (\<lambda>_.
                  and_then (container_buttons d inp c) (\<lambda>_.
                  live_stats d inp c)))))"

text \<open>Lines 115 to 120: create and run a container.\<close>

definition create_new_container :: "'e docker \<Rightarrow> inputs \<Rightarrow> client option \<Rightarrow> 'e world \<Rightarrow> unit res \<times> 'e world" where
  "create_new_container d inp v =
     when_true (create_run_button inp)
       (try_except except_Exception
          (and_then (local_client v) (\<lambda>c.
           and_then
             (let command = (if cmd_input inp \<noteq> [] then Some (cmd_input inp) else None)
              in invoke (ContainersRun (img_input inp) command)
                   (containers_run d c (img_input inp) command)) (\<lambda>new_c.
           show_ui (StSuccess (''Started new container: '' @ short_id new_c)))))
          (\<lambda>e. show_ui (StError (py_str e))))"

text \<open>Lines 76 to 120: the containers tab. It hands the listing on to the later tabs.\<close>

definition containers_tab :: "'e docker \<Rightarrow> inputs \<Rightarrow> client option \<Rightarrow> 'e world \<Rightarrow> container list res \<times> 'e world" where
  "containers_tab d inp v =
     and_then (containers_listing d (mode_radio inp) v) (\<lambda>containers.
     and_then
       (if filtered (search_input inp) containers \<noteq> []
        then container_panel d inp (filtered (search_input inp) containers)
        else show_ui (StInfo ''No containers found.'')) (\<lambda>_.
     and_then (create_new_container d inp v) (\<lambda>_.
     ret containers)))"

text \<open>Lines 129 to 136: one row per image, with its remove button.\<close>

definition remove_image :: "'e docker \<Rightarrow> client option \<Rightarrow> image \<Rightarrow> 'e world \<Rightarrow> unit res \<times> 'e world" where
  "remove_image d v i =
     try_except except_Exception
       (and_then (local_client v) (\<lambda>c.
        and_then (invoke (ImagesRemove (image_id i)) (images_remove d c (image_id i))) (\<lambda>_.
        show_ui (StSuccess ''Image removed''))))
       (\<lambda>e. show_ui (StError (py_str e)))"

fun image_rows :: "'e docker \<Rightarrow> inputs \<Rightarrow> client option \<Rightarrow> image list \<Rightarrow> 'e world \<Rightarrow> unit res \<times> 'e world" where
  "image_rows d inp v [] w = ret () w"
| "image_rows d inp v (i # rest) w =
     and_then (show_ui (StWriteImageRow (image_short_id i) (tags i))) (\<lambda>_.
     and_then (when_true (image_short_id i \<in> set (remove_img_buttons inp)) (remove_image d v i)) (\<lambda>_.
     image_rows d inp v rest)) w"

text \<open>Lines 138 to 145: pull an image.\<close>

definition pull_new_image :: "'e docker \<Rightarrow> inputs \<Rightarrow> client option \<Rightarrow> 'e world \<Rightarrow> unit res \<times> 'e world" where
  "pull_new_image d inp v =
     when_true (pull_button inp)
       (try_except except_Exception
          (and_then (local_client v) (\<lambda>c.
           and_then (invoke (ImagesPull (new_image_input inp)) (images_pull d c (new_image_input inp))) (\<lambda>_.
           show_ui (StSuccess ''Image pulled successfully''))))
          (\<lambda>e. show_ui (StError (py_str e))))"

definition images_tab :: "'e docker \<Rightarrow> inputs \<Rightarrow> client option \<Rightarrow> 'e world \<Rightarrow> unit res \<times> 'e world" where
  "images_tab d inp v =
     and_then (images_listing d (mode_radio inp) v) (\<lambda>images.
     and_then (image_rows d inp v (filtered_img (search_img_input inp) images)) (\<lambda>_.
     pull_new_image d inp v))"

text \<open>
  Lines 148 to 157: the log viewer. \<open>next(cc for cc in containers if cc.name == x)\<close> is the
  first container of that name, and \<open>StopIteration\<close> when there is none.
\<close>

definition next_named :: "container list \<Rightarrow> string \<Rightarrow> 's \<Rightarrow> container res \<times> 's" where
  "next_named containers x =
     (case find (\<lambda>cc. name cc = x) containers of
        None \<Rightarrow> raise StopIteration
      | Some c \<Rightarrow> ret c)"

definition logs_tab :: "'e docker \<Rightarrow> inputs \<Rightarrow> container list \<Rightarrow> 'e world \<Rightarrow> unit res \<times> 'e world" where
  "logs_tab d inp containers =
     (if mode_radio inp = LocalDockerTCP \<and> containers \<noteq> [] then
        (case selectbox (map name containers) (log_container_box inp) of
           None \<Rightarrow> raise StopIteration
         | Some log_container \<Rightarrow>
             and_then (next_named containers log_container) (\<lambda>c.
             and_then (invoke (ContainerLogs (cid c) 50) (container_logs d (cid c) 50)) (\<lambda>logs.
             and_then (show_ui (StCode logs)) (\<lambda>_.
             when_true (download_button inp)
               (show_ui (StDownload logs (log_container @ ''_logs.txt'')))))))
      else show_ui (StInfo ''Logs available only in Local TCP mode.''))"

text \<open>Lines 160 to 170: run a command inside a container.\<close>

definition exec_tab :: "'e docker \<Rightarrow> inputs \<Rightarrow> client option \<Rightarrow> container list \<Rightarrow> 'e world \<Rightarrow> unit res \<times> 'e world" where
  "exec_tab d inp v containers =
     (if mode_radio inp = LocalDockerTCP \<and> containers \<noteq> [] then
        (case selectbox (map name containers) (exec_container_box inp) of
           None \<Rightarrow> raise StopIteration
         | Some exec_container \<Rightarrow>
             and_then (next_named containers exec_container) (\<lambda>c.
             when_true (run_command_button inp)
               (and_then (local_client v) (\<lambda>cl.
                and_then (invoke (ExecCreate (cid c) (command_input inp))
                            (api_exec_create d cl (cid c) (command_input inp))) (\<lambda>exec_id.
                and_then (invoke (ExecStart exec_id) (api_exec_start d cl exec_id)) (\<lambda>output.
                show_ui (StCode output)))))))
      else show_ui (StInfo ''Exec available only in Local TCP mode.''))"

definition main :: "'e docker \<Rightarrow> 'e ssh_client \<Rightarrow> inputs \<Rightarrow> 'e world \<Rightarrow> unit res \<times> 'e world" where
  "main d t inp =
     and_then (connection d t inp) (\<lambda>v.
     and_then (containers_tab d inp v) (\<lambda>containers.
     and_then (images_tab d inp v) (\<lambda>_.
     and_then (logs_tab d inp containers) (\<lambda>_.
     exec_tab d inp v containers))))"

section \<open>Successive runs and the memo table\<close>

text \<open>
  The script runs again on every interaction, each time with the widgets' new values and
  against whatever the backends do then; the memo table lives on from run to run.
\<close>

fun runs :: "('e docker \<times> 'e ssh_client \<times> inputs) list \<Rightarrow> 'e world \<Rightarrow> 'e world" where
  "runs [] w = w"
| "runs ((d, t, inp) # rest) w = runs rest (snd (main d t inp w))"

text \<open>
  The clients the memo table holds. The table is well formed when they have distinct
  identities, all handed out already, and each is stored under the URI it was built for.
\<close>

definition cached_clients :: "'e world \<Rightarrow> client list" where
  "cached_clients w = List.map_filter snd (cache w)"

definition cache_wf :: "'e world \<Rightarrow> bool" where
  "cache_wf w \<longleftrightarrow>
     distinct (map client_id (cached_clients w))
     \<and> list_all (\<lambda>c. client_id c < next_id w) (cached_clients w)
     \<and> list_all (\<lambda>(k, v). case v of None \<Rightarrow> True | Some c \<Rightarrow> base_url c = k) (cache w)"

text \<open>A statement that leaves the memo table and the identity counter as they are.\<close>

definition keeps_memo :: "('e world \<Rightarrow> 'a res \<times> 'e world) \<Rightarrow> bool" where
  "keeps_memo m \<longleftrightarrow> (\<forall>w. cache (snd (m w)) = cache w \<and> next_id (snd (m w)) = next_id w)"


section \<open>What the specification calls containment\<close>

text \<open>
  Two code points are the same letter up to case when their lower-case forms coincide.
  A name contains \<open>s\<close> case-insensitively when some window of the name, as long as \<open>s\<close>,
  agrees with \<open>s\<close> letter by letter up to case.
\<close>

definition same_letter :: "char \<Rightarrow> char \<Rightarrow> bool" where
  "same_letter a b \<longleftrightarrow> py_lower_char a = py_lower_char b"

definition contains_ci :: "string \<Rightarrow> string \<Rightarrow> bool" where
  "contains_ci t s \<longleftrightarrow>
     (\<exists>i \<in> {0..length t}. list_all2 same_letter (take (length s) (drop i t)) s)"

section \<open>A sample environment\<close>

text \<open>
  One concrete outside world, for running the definitions: an engine at
  \<open>tcp://localhost:2375\<close> with three containers and three images, and an SSH server at
  \<open>10.0.0.5\<close>. The engine's state is its container list. It refuses to start the
  container \<open>db\<close> (its port is taken), reports an empty \<open>memory_stats\<close> for a container
  that is not running, refuses to create an exec session in one, knows the image
  \<open>alpine:latest\<close> only, and cannot remove an image that is in use.
\<close>

definition sample_containers :: "container list" where
  "sample_containers =
     [\<lparr>cid = ''c1c1c1c1c1c1c1c1'', short_id = ''c1c1c1c1c1c1'', name = ''Web-APP_1'',
        image_tags = [''nginx:latest''], status = ''running''\<rparr>,
      \<lparr>cid = ''c2c2c2c2c2c2c2c2'', short_id = ''c2c2c2c2c2c2'', name = ''db'',
        image_tags = [''postgres:16''], status = ''exited''\<rparr>,
      \<lparr>cid = ''c3c3c3c3c3c3c3c3'', short_id = ''c3c3c3c3c3c3'', name = ''webhook'',
        image_tags = [], status = ''running''\<rparr>]"

definition sample_images :: "image list" where
  "sample_images =
     [\<lparr>image_id = ''sha256:aaaa'', image_short_id = ''sha256:aa'', tags = [''Nginx:latest'']\<rparr>,
      \<lparr>image_id = ''sha256:bbbb'', image_short_id = ''sha256:bb'',
        tags = [''alpine:3.19'', ''my/nginx:1'']\<rparr>,
      \<lparr>image_id = ''sha256:cccc'', image_short_id = ''sha256:cc'', tags = []\<rparr>]"

definition set_status :: "string \<Rightarrow> string \<Rightarrow> container list \<Rightarrow> container list" where
  "set_status i st cs = map (\<lambda>c. if cid c = i then c\<lparr>status := st\<rparr> else c) cs"

definition is_running :: "string \<Rightarrow> container list \<Rightarrow> bool" where
  "is_running i cs = list_ex (\<lambda>c. cid c = i \<and> status c = ''running'') cs"

definition sample_stats :: "string \<Rightarrow> container list \<Rightarrow> json" where
  "sample_stats i cs =
     (if is_running i cs then
        JDict [(''memory_stats'', JDict [(''usage'', JInt 52428800), (''limit'', JInt 2147483648)]),
               (''cpu_stats'', JDict [(''cpu_usage'', JDict [(''total_usage'', JInt 123456789)])])]
      else
        JDict [(''memory_stats'', JDict []),
               (''cpu_stats'', JDict [(''cpu_usage'', JDict [(''total_usage'', JInt 0)])])])"

definition sample_docker :: "container list docker" where
  "sample_docker =
     \<lparr>docker_client_init = (\<lambda>uri e. (Inr (), e)),
      client_ping = (\<lambda>c e.
        (if base_url c = ''tcp://localhost:2375'' then Inr ()
         else Inl (DockerException ''Connection refused''), e)),
      containers_list = (\<lambda>c e. (Inr e, e)),
      container_start = (\<lambda>i e.
        if i = ''c2c2c2c2c2c2c2c2'' then (Inl (APIError ''port is already allocated''), e)
        else (Inr (), set_status i ''running'' e)),
      container_stop = (\<lambda>i e. (Inr (), set_status i ''exited'' e)),
      container_restart = (\<lambda>i e. (Inr (), set_status i ''running'' e)),
      container_remove = (\<lambda>i e. (Inr (), filter (\<lambda>c. cid c \<noteq> i) e)),
      container_stats = (\<lambda>i e. (Inr (sample_stats i e), e)),
      container_logs = (\<lambda>i n e. (Inr ''hello'', e)),
      containers_run = (\<lambda>c im cm e.
        if im = ''alpine:latest'' then
          (let new_c = \<lparr>cid = ''c4c4c4c4c4c4c4c4'', short_id = ''c4c4c4c4c4c4'', name = ''new'',
                          image_tags = [im], status = ''running''\<rparr>
           in (Inr new_c, e @ [new_c]))
        else (Inl (APIError (''pull access denied for '' @ im)), e)),
      images_list = (\<lambda>c e. (Inr sample_images, e)),
      images_remove = (\<lambda>c i e.
        (if i = ''sha256:bbbb'' then Inl (APIError ''image is being used by a container'')
         else Inr (), e)),
      images_pull = (\<lambda>c r e.
        (if r = ''alpine:latest'' then Inr () else Inl (APIError (''not found: '' @ r)), e)),
      api_exec_create = (\<lambda>c i cm e.
        (if is_running i e then Inr ''exec1''
         else Inl (APIError ''409 Conflict: container is not running''), e)),
      api_exec_start = (\<lambda>c x e. (Inr ''total 0'', e))\<rparr>"

definition sample_ssh :: "container list ssh_client" where
  "sample_ssh =
     \<lparr>ssh_connect = (\<lambda>h u p n e.
        (if h = ''10.0.0.5'' then Inr () else Inl (OtherException ''timed out''), e)),
      ssh_exec_command = (\<lambda>h c e. (Inr (), e)),
      stdout_read_decode = (\<lambda>h c e.
        (Inr (if c = ''docker ps -a'' then ''CONTAINER ID   IMAGE'' else []), e)),
      stderr_read_decode = (\<lambda>h c e.
        (Inr (if c = ''docker ps -a'' then [] else ''sh: command not found''), e)),
      ssh_close = (\<lambda>h e. (Inr (), e))\<rparr>"

definition sample_world :: "container list world" where
  "sample_world =
     \<lparr>engine = sample_containers, calls = [], ui = [], cache = [], next_id = 0\<rparr>"

text \<open>A run with nothing clicked, in TCP mode against the sample engine, and one in SSH mode.\<close>

definition idle_inputs :: inputs where
  "idle_inputs =
     \<lparr>mode_radio = LocalDockerTCP, docker_host_input = ''tcp://localhost:2375'',
      ssh_host_input = [], ssh_user_input = [], ssh_pass_input = [], test_ssh_button = False,
      search_input = [], select_container_box = 0,
      start_button = False, stop_button = False, restart_button = False, remove_button = False,
      live_stats_checkbox = False,
      img_input = ''alpine:latest'', cmd_input = ''echo Hello from Docker'',
      create_run_button = False,
      search_img_input = [], remove_img_buttons = [],
      new_image_input = ''nginx:latest'', pull_button = False,
      log_container_box = 0, download_button = False,
      exec_container_box = 0, command_input = ''ls -l'', run_command_button = False\<rparr>"

definition ssh_inputs :: inputs where
  "ssh_inputs =
     idle_inputs\<lparr>mode_radio := SSHToRemoteDocker, ssh_host_input := ''10.0.0.5'',
       ssh_user_input := ''root'', ssh_pass_input := ''secret''\<rparr>"

text \<open>
  The same engine when every endpoint answers the ping, the two URIs used below, a run
  against an endpoint that does not answer, and two of the sample containers by name.
\<close>

definition open_docker :: "container list docker" where
  "open_docker = sample_docker\<lparr>client_ping := (\<lambda>c e. (Inr (), e))\<rparr>"

definition local_uri :: string where
  "local_uri = ''tcp://localhost:2375''"

definition remote_uri :: string where
  "remote_uri = ''tcp://10.9.9.9:2375''"


definition db_container :: container where
  "db_container = \<lparr>cid = ''c2c2c2c2c2c2c2c2'', short_id = ''c2c2c2c2c2c2'', name = ''db'',
        image_tags = [''postgres:16''], status = ''exited''\<rparr>"

definition web_container :: container where
  "web_container = \<lparr>cid = ''c1c1c1c1c1c1c1c1'', short_id = ''c1c1c1c1c1c1'', name = ''Web-APP_1'',
        image_tags = [''nginx:latest''], status = ''running''\<rparr>"

section \<open>Properties of the string operations\<close>

lemma str_in_sublist: "str_in s t \<longleftrightarrow> sublist s t"
  by (induction t) (simp_all add: sublist_Cons_right)

lemma same_letter_lower: "list_all2 same_letter xs ys \<longleftrightarrow> py_lower xs = py_lower ys"
proof (induction xs arbitrary: ys)
  case Nil
  then show ?case by (simp add: py_lower_def)
next
  case (Cons x xs)
  then show ?case by (cases ys) (auto simp: py_lower_def same_letter_def)
qed

lemma window_of_sublist:
  assumes "sublist u (map f t)"
  shows "\<exists>i \<in> {0..length t}. map f (take (length u) (drop i t)) = u"
proof -
  from assms obtain ps ss where eq: "map f t = ps @ u @ ss"
    by (auto simp: sublist_def)
  have len: "length ps \<le> length t"
    using arg_cong [OF eq, of length] by simp
  have "map f (take (length u) (drop (length ps) t))
          = take (length u) (drop (length ps) (map f t))"
    by (simp add: take_map drop_map)
  also have "\<dots> = u" by (simp add: eq)
  finally show ?thesis using len by auto
qed

lemma sublist_of_window:
  assumes "map f (take n (drop i t)) = map f s"
  shows "sublist (map f s) (map f t)"
proof -
  have "t = take i t @ take n (drop i t) @ drop n (drop i t)"
    by (simp only: append_take_drop_id)
  then have "map f t = map f (take i t) @ map f (take n (drop i t)) @ map f (drop n (drop i t))"
    by (metis map_append)
  with assms show ?thesis by (metis sublist_appendI)
qed

lemma contains_ci_lower: "contains_ci t s \<longleftrightarrow> str_in (py_lower s) (py_lower t)"
proof
  assume "contains_ci t s"
  then obtain i where "py_lower (take (length s) (drop i t)) = py_lower s"
    by (auto simp: contains_ci_def same_letter_lower)
  then show "str_in (py_lower s) (py_lower t)"
    unfolding str_in_sublist py_lower_def by (rule sublist_of_window)
next
  assume "str_in (py_lower s) (py_lower t)"
  then have "sublist (map py_lower_char s) (map py_lower_char t)"
    by (simp add: str_in_sublist py_lower_def)
  from window_of_sublist [OF this]
  show "contains_ci t s"
    by (simp add: contains_ci_def same_letter_lower py_lower_def)
qed

lemma contains_ci_empty: "contains_ci t []"
  by (simp add: contains_ci_lower py_lower_def str_in_sublist)


section \<open>Properties of the control operators\<close>


lemma and_then_Ret: "m s = (Ret a, s') \<Longrightarrow> and_then m k s = k a s'"
  by (simp add: and_then_def)

lemma and_then_Raise: "m s = (Raise x, s') \<Longrightarrow> and_then m k s = (Raise x, s')"
  by (simp add: and_then_def)

lemma and_then_Stop: "m s = (Stop, s') \<Longrightarrow> and_then m k s = (Stop, s')"
  by (simp add: and_then_def)

lemma and_then_ret: "and_then (ret a) k s = k a s"
  by (simp add: and_then_def ret_def)

lemma invoke_Inl:
  "f (engine w) = (Inl x, e') \<Longrightarrow> invoke c f w = (Raise x, w\<lparr>engine := e', calls := calls w @ [c]\<rparr>)"
  by (simp add: invoke_def)

lemma invoke_Inr:
  "f (engine w) = (Inr a, e') \<Longrightarrow> invoke c f w = (Ret a, w\<lparr>engine := e', calls := calls w @ [c]\<rparr>)"
  by (simp add: invoke_def)

lemma try_except_Raise:
  "m s = (Raise x, s') \<Longrightarrow> catches x \<Longrightarrow> try_except catches m h s = h x s'"
  by (simp add: try_except_def)

lemma try_except_Ret:
  "m s = (Ret a, s') \<Longrightarrow> try_except catches m h s = (Ret a, s')"
  by (simp add: try_except_def)

section \<open>Properties of \<open>run_ssh_command\<close>\<close>







lemma ssh_never_raises: "\<exists>text. fst (run_ssh_command t h u p c w) = Ret text"
  by (simp add: run_ssh_command_def try_except_def and_then_def invoke_def ret_def
      except_Exception_def split: prod.splits sum.splits res.splits)


section \<open>Properties of the button handlers\<close>

lemma start_fails:
  "start_button inp \<Longrightarrow> container_start d (cid c) (engine w) = (Inl x, e')
   \<Longrightarrow> container_buttons d inp c w
       = (Raise x, w\<lparr>engine := e', calls := calls w @ [ContainerStart (cid c)]\<rparr>)"
  by (simp add: container_buttons_def when_true_def and_then_def invoke_def)

lemma stop_fails:
  "\<not> start_button inp \<Longrightarrow> stop_button inp \<Longrightarrow> container_stop d (cid c) (engine w) = (Inl x, e')
   \<Longrightarrow> container_buttons d inp c w
       = (Raise x, w\<lparr>engine := e', calls := calls w @ [ContainerStop (cid c)]\<rparr>)"
  by (simp add: container_buttons_def when_true_def and_then_def invoke_def ret_def)

lemma restart_fails:
  "\<not> start_button inp \<Longrightarrow> \<not> stop_button inp \<Longrightarrow> restart_button inp
   \<Longrightarrow> container_restart d (cid c) (engine w) = (Inl x, e')
   \<Longrightarrow> container_buttons d inp c w
       = (Raise x, w\<lparr>engine := e', calls := calls w @ [ContainerRestart (cid c)]\<rparr>)"
  by (simp add: container_buttons_def when_true_def and_then_def invoke_def ret_def)

lemma remove_fails:
  "\<not> start_button inp \<Longrightarrow> \<not> stop_button inp \<Longrightarrow> \<not> restart_button inp \<Longrightarrow> remove_button inp
   \<Longrightarrow> container_remove d (cid c) (engine w) = (Inl x, e')
   \<Longrightarrow> container_buttons d inp c w
       = (Raise x, w\<lparr>engine := e', calls := calls w @ [ContainerRemove (cid c)]\<rparr>)"
  by (simp add: container_buttons_def when_true_def and_then_def invoke_def ret_def)

lemma create_caught:
  "create_run_button inp
   \<Longrightarrow> containers_run d cl (img_input inp)
         (if cmd_input inp \<noteq> [] then Some (cmd_input inp) else None) (engine w) = (Inl x, e')
   \<Longrightarrow> create_new_container d inp (Some cl) w
       = (Ret (), w\<lparr>engine := e',
            calls := calls w @ [ContainersRun (img_input inp)
                       (if cmd_input inp \<noteq> [] then Some (cmd_input inp) else None)],
            ui := ui w @ [StError (py_str x)]\<rparr>)"
  by (simp add: create_new_container_def when_true_def try_except_def and_then_def invoke_def
      local_client_def ret_def show_ui_def except_Exception_def Let_def)

lemma remove_image_caught:
  "images_remove d cl (image_id i) (engine w) = (Inl x, e')
   \<Longrightarrow> remove_image d (Some cl) i w
       = (Ret (), w\<lparr>engine := e', calls := calls w @ [ImagesRemove (image_id i)],
            ui := ui w @ [StError (py_str x)]\<rparr>)"
  by (simp add: remove_image_def try_except_def and_then_def invoke_def
      local_client_def ret_def show_ui_def except_Exception_def)

lemma pull_caught:
  "pull_button inp \<Longrightarrow> images_pull d cl (new_image_input inp) (engine w) = (Inl x, e')
   \<Longrightarrow> pull_new_image d inp (Some cl) w
       = (Ret (), w\<lparr>engine := e', calls := calls w @ [ImagesPull (new_image_input inp)],
            ui := ui w @ [StError (py_str x)]\<rparr>)"
  by (simp add: pull_new_image_def when_true_def try_except_def and_then_def invoke_def
      local_client_def ret_def show_ui_def except_Exception_def)

lemma create_returns: "fst (create_new_container d inp v w) = Ret ()"
  by (simp add: create_new_container_def when_true_def try_except_def and_then_def invoke_def
      local_client_def ret_def raise_def show_ui_def except_Exception_def Let_def
      split: prod.splits sum.splits res.splits option.splits)

lemma remove_image_returns: "fst (remove_image d v i w) = Ret ()"
  by (simp add: remove_image_def try_except_def and_then_def invoke_def
      local_client_def ret_def raise_def show_ui_def except_Exception_def
      split: prod.splits sum.splits res.splits option.splits)

lemma pull_returns: "fst (pull_new_image d inp v w) = Ret ()"
  by (simp add: pull_new_image_def when_true_def try_except_def and_then_def invoke_def
      local_client_def ret_def raise_def show_ui_def except_Exception_def
      split: prod.splits sum.splits res.splits option.splits)

section \<open>Properties of the statistics panel\<close>

lemma live_stats_engine_fails:
  "live_stats_checkbox inp \<Longrightarrow> container_stats d (cid c) (engine w) = (Inl x, e')
   \<Longrightarrow> live_stats d inp c w = (Raise x, w\<lparr>engine := e', calls := calls w @ [ContainerStats (cid c)]\<rparr>)"
  by (simp add: live_stats_def when_true_def and_then_def invoke_def)

lemma live_stats_sample_fails:
  "live_stats_checkbox inp \<Longrightarrow> container_stats d (cid c) (engine w) = (Inr s, e')
   \<Longrightarrow> stats_values s = Inl x
   \<Longrightarrow> live_stats d inp c w = (Raise x, w\<lparr>engine := e', calls := calls w @ [ContainerStats (cid c)]\<rparr>)"
  by (simp add: live_stats_def when_true_def and_then_def invoke_def lift_py_def raise_def)

lemma live_stats_shows:
  "live_stats_checkbox inp \<Longrightarrow> container_stats d (cid c) (engine w) = (Inr s, e')
   \<Longrightarrow> stats_values s = Inr (mem, cpu)
   \<Longrightarrow> live_stats d inp c w
       = (Ret (), w\<lparr>engine := e', calls := calls w @ [ContainerStats (cid c)],
            ui := ui w @ [StInfoStats mem cpu]\<rparr>)"
  by (simp add: live_stats_def when_true_def and_then_def invoke_def lift_py_def ret_def show_ui_def)

lemma stats_values_missing_usage:
  "subscript s ''memory_stats'' = Inr ms \<Longrightarrow> subscript ms ''usage'' = Inl x
   \<Longrightarrow> stats_values s = Inl x"
  by (simp add: stats_values_def)

lemma stats_values_pair:
  "stats_values s = Inr (mem, cpu) \<Longrightarrow> subscript s ''memory_stats'' = Inr ms
   \<Longrightarrow> subscript ms ''usage'' = Inr (JInt n)
   \<Longrightarrow> mem = of_int n / 2 ^ 20
       \<and> (\<exists>cs cu. subscript s ''cpu_stats'' = Inr cs \<and> subscript cs ''cpu_usage'' = Inr cu
             \<and> subscript cu ''total_usage'' = Inr cpu)"
  by (auto simp: stats_values_def split: sum.splits)

section \<open>Properties of the exec tab\<close>

lemma exec_create_fails:
  "mode_radio inp = LocalDockerTCP \<Longrightarrow> containers \<noteq> []
   \<Longrightarrow> selectbox (map name containers) (exec_container_box inp) = Some n
   \<Longrightarrow> find (\<lambda>cc. name cc = n) containers = Some c
   \<Longrightarrow> run_command_button inp
   \<Longrightarrow> api_exec_create d cl (cid c) (command_input inp) (engine w) = (Inl x, e')
   \<Longrightarrow> exec_tab d inp (Some cl) containers w
       = (Raise x, w\<lparr>engine := e', calls := calls w @ [ExecCreate (cid c) (command_input inp)]\<rparr>)"
  by (simp add: exec_tab_def next_named_def when_true_def and_then_def invoke_def
      local_client_def ret_def)

section \<open>Properties of a run in SSH mode and of the connection gate\<close>

lemma containers_tab_ssh:
  "mode_radio inp = SSHToRemoteDocker
   \<Longrightarrow> containers_tab d inp None w
       = (Ret [], w\<lparr>ui := ui w @ StInfo ''No containers found.''
              # (if create_run_button inp then [StError (py_str (UnboundLocalError ''client''))] else [])\<rparr>)"
  by (simp add: containers_tab_def containers_listing_def filtered_def create_new_container_def
      when_true_def try_except_def and_then_def local_client_def ret_def raise_def show_ui_def
      except_Exception_def)

lemma images_tab_ssh:
  "mode_radio inp = SSHToRemoteDocker
   \<Longrightarrow> images_tab d inp None w
       = (Ret (), w\<lparr>ui := ui w
              @ (if pull_button inp then [StError (py_str (UnboundLocalError ''client''))] else [])\<rparr>)"
  by (simp add: images_tab_def images_listing_def filtered_img_def pull_new_image_def
      when_true_def try_except_def and_then_def local_client_def ret_def raise_def show_ui_def
      except_Exception_def)



lemma run_ssh_command_frame:
  "ui (snd (run_ssh_command t h u p c w)) = ui w
   \<and> cache (snd (run_ssh_command t h u p c w)) = cache w
   \<and> take (length (calls w)) (calls (snd (run_ssh_command t h u p c w))) = calls w
   \<and> list_all is_ssh_call (drop (length (calls w)) (calls (snd (run_ssh_command t h u p c w))))"
  by (simp add: run_ssh_command_def try_except_def and_then_def invoke_def ret_def
      except_Exception_def split: prod.splits sum.splits res.splits)

lemma connection_ssh:
  assumes "mode_radio inp = SSHToRemoteDocker"
  shows "fst (connection d t inp w) = Ret None
   \<and> take (length (calls w)) (calls (snd (connection d t inp w))) = calls w
   \<and> list_all is_ssh_call (drop (length (calls w)) (calls (snd (connection d t inp w))))
   \<and> (\<not> test_ssh_button inp \<longrightarrow> calls (snd (connection d t inp w)) = calls w
         \<and> engine (snd (connection d t inp w)) = engine w)"
proof (cases "run_ssh_command t (ssh_host_input inp) (ssh_user_input inp) (ssh_pass_input inp) ''docker ps -a'' w")
  case (Pair r w1)
  from ssh_never_raises [of t "ssh_host_input inp" "ssh_user_input inp" "ssh_pass_input inp" "''docker ps -a''" w]
  obtain msg where r: "r = Ret msg" using Pair by auto
  from run_ssh_command_frame [of t "ssh_host_input inp" "ssh_user_input inp" "ssh_pass_input inp" "''docker ps -a''" w]
  have fr: "take (length (calls w)) (calls w1) = calls w"
    "list_all is_ssh_call (drop (length (calls w)) (calls w1))"
    using Pair by simp_all
  show ?thesis
    using assms Pair r fr
    by (simp add: connection_def when_true_def and_then_def show_ui_def ret_def)
qed

lemma tabs_ssh:
  assumes "mode_radio inp = SSHToRemoteDocker"
  shows "fst (and_then (containers_tab d inp None) (\<lambda>containers.
           and_then (images_tab d inp None) (\<lambda>_.
           and_then (logs_tab d inp containers) (\<lambda>_.
           exec_tab d inp None containers))) w) = Ret ()
     \<and> calls (snd (and_then (containers_tab d inp None) (\<lambda>containers.
           and_then (images_tab d inp None) (\<lambda>_.
           and_then (logs_tab d inp containers) (\<lambda>_.
           exec_tab d inp None containers))) w)) = calls w
     \<and> engine (snd (and_then (containers_tab d inp None) (\<lambda>containers.
           and_then (images_tab d inp None) (\<lambda>_.
           and_then (logs_tab d inp containers) (\<lambda>_.
           exec_tab d inp None containers))) w)) = engine w"
  using assms
  by (simp add: and_then_def containers_tab_ssh images_tab_ssh logs_tab_def exec_tab_def show_ui_def)

lemma main_ssh:
  assumes "mode_radio inp = SSHToRemoteDocker"
  shows "fst (main d t inp w) = Ret ()
   \<and> calls (snd (main d t inp w)) = calls (snd (connection d t inp w))
   \<and> engine (snd (main d t inp w)) = engine (snd (connection d t inp w))"
proof (cases "connection d t inp w")
  case (Pair r w1)
  with connection_ssh [OF assms, of d t w] have r: "r = Ret None" by simp
  from tabs_ssh [OF assms, of d w1] Pair r
  show ?thesis by (simp add: main_def and_then_Ret)
qed

section \<open>The calls of the handshake\<close>




section \<open>Statements that leave the memo table alone\<close>

lemma keeps_ret: "keeps_memo (ret a)"
  by (simp add: keeps_memo_def ret_def)

lemma keeps_raise: "keeps_memo (raise x)"
  by (simp add: keeps_memo_def raise_def)

lemma keeps_invoke: "keeps_memo (invoke c f)"
  by (simp add: keeps_memo_def invoke_def split: prod.splits sum.splits)

lemma keeps_show_ui: "keeps_memo (show_ui ev)"
  by (simp add: keeps_memo_def show_ui_def)

lemma keeps_and_then:
  assumes "keeps_memo m" and "\<And>a. keeps_memo (k a)"
  shows "keeps_memo (and_then m k)"
  unfolding keeps_memo_def
proof
  fix w
  obtain r w1 where mw: "m w = (r, w1)" by (cases "m w")
  with assms(1) have f1: "cache w1 = cache w" "next_id w1 = next_id w"
    unfolding keeps_memo_def by (metis snd_conv)+
  show "cache (snd (and_then m k w)) = cache w \<and> next_id (snd (and_then m k w)) = next_id w"
  proof (cases r)
    case (Ret a)
    from assms(2) [of a] have "cache (snd (k a w1)) = cache w1" "next_id (snd (k a w1)) = next_id w1"
      unfolding keeps_memo_def by simp_all
    with mw Ret f1 show ?thesis by (simp add: and_then_def)
  next
    case (Raise x)
    with mw f1 show ?thesis by (simp add: and_then_def)
  next
    case Stop
    with mw f1 show ?thesis by (simp add: and_then_def)
  qed
qed

lemma keeps_try_except:
  assumes "keeps_memo m" and "\<And>x. keeps_memo (h x)"
  shows "keeps_memo (try_except catches m h)"
  unfolding keeps_memo_def
proof
  fix w
  obtain r w1 where mw: "m w = (r, w1)" by (cases "m w")
  with assms(1) have f1: "cache w1 = cache w" "next_id w1 = next_id w"
    unfolding keeps_memo_def by (metis snd_conv)+
  show "cache (snd (try_except catches m h w)) = cache w
      \<and> next_id (snd (try_except catches m h w)) = next_id w"
  proof (cases r)
    case (Ret a)
    with mw f1 show ?thesis by (simp add: try_except_def)
  next
    case (Raise x)
    from assms(2) [of x] have "cache (snd (h x w1)) = cache w1" "next_id (snd (h x w1)) = next_id w1"
      unfolding keeps_memo_def by simp_all
    with mw Raise f1 show ?thesis by (simp add: try_except_def)
  next
    case Stop
    with mw f1 show ?thesis by (simp add: try_except_def)
  qed
qed

lemma keeps_when_true: "keeps_memo m \<Longrightarrow> keeps_memo (when_true b m)"
  by (simp add: when_true_def keeps_ret)

lemma keeps_lift_py: "keeps_memo (lift_py r)"
  by (cases r) (simp_all add: lift_py_def keeps_ret keeps_raise)

lemma keeps_local_client: "keeps_memo (local_client v)"
  by (cases v) (simp_all add: local_client_def keeps_ret keeps_raise)

lemma keeps_next_named: "keeps_memo (next_named cs x)"
  by (simp add: next_named_def keeps_ret keeps_raise split: option.splits)

lemmas keeps_rules = keeps_ret keeps_raise keeps_invoke keeps_show_ui keeps_and_then
  keeps_try_except keeps_when_true keeps_lift_py keeps_local_client keeps_next_named

lemma keeps_run_ssh_command: "keeps_memo (run_ssh_command t h u p c)"
  unfolding run_ssh_command_def by (intro keeps_rules)

lemma keeps_container_buttons: "keeps_memo (container_buttons d inp c)"
  unfolding container_buttons_def by (intro keeps_rules)

lemma keeps_live_stats: "keeps_memo (live_stats d inp c)"
  unfolding live_stats_def by (intro keeps_rules) (simp add: keeps_show_ui split: prod.splits)

lemma keeps_container_panel: "keeps_memo (container_panel d inp fl)"
  unfolding container_panel_def Let_def
  by (auto intro!: keeps_rules keeps_container_buttons keeps_live_stats split: option.splits)

lemma keeps_create_new_container: "keeps_memo (create_new_container d inp v)"
  unfolding create_new_container_def Let_def by (intro keeps_rules)

lemma keeps_containers_listing: "keeps_memo (containers_listing d m v)"
  unfolding containers_listing_def by (auto intro!: keeps_rules)

lemma keeps_images_listing: "keeps_memo (images_listing d m v)"
  unfolding images_listing_def by (auto intro!: keeps_rules)

lemma keeps_containers_tab: "keeps_memo (containers_tab d inp v)"
  unfolding containers_tab_def
  by (auto intro!: keeps_rules keeps_containers_listing keeps_container_panel
      keeps_create_new_container)

lemma keeps_remove_image: "keeps_memo (remove_image d v i)"
  unfolding remove_image_def by (intro keeps_rules)

lemma keeps_image_rows: "keeps_memo (image_rows d inp v imgs)"
proof (induction imgs)
  case Nil
  have "image_rows d inp v [] = ret ()" by (rule ext) simp
  then show ?case by (simp add: keeps_ret)
next
  case (Cons i rest)
  have "image_rows d inp v (i # rest)
      = and_then (show_ui (StWriteImageRow (image_short_id i) (tags i))) (\<lambda>_.
        and_then (when_true (image_short_id i \<in> set (remove_img_buttons inp)) (remove_image d v i)) (\<lambda>_.
        image_rows d inp v rest))"
    by (rule ext) simp
  with Cons show ?case by (auto intro!: keeps_rules keeps_remove_image)
qed

lemma keeps_pull_new_image: "keeps_memo (pull_new_image d inp v)"
  unfolding pull_new_image_def by (intro keeps_rules)

lemma keeps_images_tab: "keeps_memo (images_tab d inp v)"
  unfolding images_tab_def
  by (intro keeps_rules keeps_images_listing keeps_image_rows keeps_pull_new_image)

lemma keeps_logs_tab: "keeps_memo (logs_tab d inp cs)"
  unfolding logs_tab_def by (auto intro!: keeps_rules split: option.splits)

lemma keeps_exec_tab: "keeps_memo (exec_tab d inp v cs)"
  unfolding exec_tab_def by (auto intro!: keeps_rules split: option.splits)

lemma keeps_tabs:
  "keeps_memo (\<lambda>w. and_then (containers_tab d inp v) (\<lambda>containers.
     and_then (images_tab d inp v) (\<lambda>_.
     and_then (logs_tab d inp containers) (\<lambda>_.
     exec_tab d inp v containers))) w)"
  by (intro keeps_rules keeps_containers_tab keeps_images_tab keeps_logs_tab keeps_exec_tab)

section \<open>Properties of the memo table\<close>

lemma main_memo:
  "cache (snd (main d t inp w)) = cache (snd (connection d t inp w))
   \<and> next_id (snd (main d t inp w)) = next_id (snd (connection d t inp w))"
proof (cases "connection d t inp w")
  case (Pair r w1)
  show ?thesis
  proof (cases r)
    case (Ret v)
    from keeps_tabs [of d inp v] have
      "cache (snd (and_then (containers_tab d inp v) (\<lambda>containers.
         and_then (images_tab d inp v) (\<lambda>_.
         and_then (logs_tab d inp containers) (\<lambda>_.
         exec_tab d inp v containers))) w1)) = cache w1"
      "next_id (snd (and_then (containers_tab d inp v) (\<lambda>containers.
         and_then (images_tab d inp v) (\<lambda>_.
         and_then (logs_tab d inp containers) (\<lambda>_.
         exec_tab d inp v containers))) w1)) = next_id w1"
      unfolding keeps_memo_def by simp_all
    with Pair Ret show ?thesis by (simp add: main_def and_then_Ret)
  next
    case (Raise x)
    with Pair show ?thesis by (simp add: main_def and_then_Raise)
  next
    case Stop
    with Pair show ?thesis by (simp add: main_def and_then_Stop)
  qed
qed

lemma connect_and_ping_result:
  "cache (snd (connect_and_ping d u w)) = cache w
   \<and> next_id w \<le> next_id (snd (connect_and_ping d u w))
   \<and> (case fst (connect_and_ping d u w) of
         Ret c \<Rightarrow> client_id c = next_id w \<and> base_url c = u
                   \<and> next_id (snd (connect_and_ping d u w)) = Suc (next_id w)
       | Raise x \<Rightarrow> True | Stop \<Rightarrow> True)"
  by (simp add: connect_and_ping_def and_then_def invoke_def new_client_def ret_def
      split: prod.splits sum.splits res.splits)

lemma body_result:
  "cache (snd (get_docker_client_via_tcp_body d u w)) = cache w
   \<and> next_id w \<le> next_id (snd (get_docker_client_via_tcp_body d u w))
   \<and> (case fst (get_docker_client_via_tcp_body d u w) of
         Ret (Some c) \<Rightarrow> client_id c = next_id w \<and> base_url c = u
                   \<and> next_id (snd (get_docker_client_via_tcp_body d u w)) = Suc (next_id w)
       | Ret None \<Rightarrow> True | Raise x \<Rightarrow> True | Stop \<Rightarrow> True)"
proof (cases "connect_and_ping d u w")
  case (Pair r0 w0)
  with connect_and_ping_result [of d u w] show ?thesis
    by (cases r0)
      (simp_all add: get_docker_client_via_tcp_body_def try_except_def and_then_def ret_def
        show_ui_def)
qed

lemma connect_hit:
  "map_of (cache w) u = Some v \<Longrightarrow> get_docker_client_via_tcp d u w = (Ret v, w)"
  by (simp add: get_docker_client_via_tcp_def cache_resource_def)

lemma connect_result_cached:
  assumes "get_docker_client_via_tcp d u w = (Ret v, w1)"
  shows "map_of (cache w1) u = Some v"
proof (cases "map_of (cache w) u")
  case (Some v')
  with assms show ?thesis by (simp add: connect_hit)
next
  case None
  obtain r0 w0 where b: "get_docker_client_via_tcp_body d u w = (r0, w0)"
    by (cases "get_docker_client_via_tcp_body d u w")
  from body_result [of d u w] b have "cache w0 = cache w" by simp
  with assms None b show ?thesis
    by (cases r0) (auto simp: get_docker_client_via_tcp_def cache_resource_def map_add_def)
qed

lemma connect_keeps:
  assumes "map_of (cache w) k = Some v"
  shows "map_of (cache (snd (get_docker_client_via_tcp d u w))) k = Some v"
proof (cases "map_of (cache w) u")
  case (Some v')
  with assms show ?thesis by (simp add: connect_hit)
next
  case None
  obtain r0 w0 where b: "get_docker_client_via_tcp_body d u w = (r0, w0)"
    by (cases "get_docker_client_via_tcp_body d u w")
  from body_result [of d u w] b have "cache w0 = cache w" by simp
  with assms None b show ?thesis
    by (cases r0) (auto simp: get_docker_client_via_tcp_def cache_resource_def map_add_def)
qed

lemma connection_keeps:
  assumes "map_of (cache w) k = Some v"
  shows "map_of (cache (snd (connection d t inp w))) k = Some v"
proof (cases "mode_radio inp = LocalDockerTCP")
  case True
  obtain r w1 where c: "get_docker_client_via_tcp d (docker_host_input inp) w = (r, w1)"
    by (cases "get_docker_client_via_tcp d (docker_host_input inp) w")
  with connect_keeps [OF assms, of d "docker_host_input inp"]
  have "map_of (cache w1) k = Some v" by simp
  with True c show ?thesis
    by (cases r) (simp_all add: connection_def and_then_def st_stop_def ret_def)
next
  case False
  have "keeps_memo (connection d t inp)"
    using False unfolding connection_def
    by (auto intro!: keeps_rules keeps_run_ssh_command)
  with assms show ?thesis by (simp add: keeps_memo_def)
qed

lemma main_keeps:
  "map_of (cache w) k = Some v \<Longrightarrow> map_of (cache (snd (main d t inp w))) k = Some v"
  by (simp add: main_memo connection_keeps)

lemma runs_keeps:
  "map_of (cache w) k = Some v \<Longrightarrow> map_of (cache (runs rs w)) k = Some v"
proof (induction rs arbitrary: w)
  case Nil
  then show ?case by simp
next
  case (Cons r rs)
  obtain d t inp where r: "r = (d, t, inp)" by (cases r)
  from Cons.prems have "map_of (cache (snd (main d t inp w))) k = Some v"
    by (rule main_keeps)
  from Cons.IH [OF this] r show ?case by simp
qed

lemma map_filter_append: "List.map_filter f (xs @ ys) = List.map_filter f xs @ List.map_filter f ys"
  by (simp add: List.map_filter_def)

lemma cached_clients_iff: "c \<in> set (cached_clients w) \<longleftrightarrow> (\<exists>k. (k, Some c) \<in> set (cache w))"
  by (force simp: cached_clients_def List.map_filter_def)

lemma cache_wf_empty: "cache w = [] \<Longrightarrow> cache_wf w"
  by (simp add: cache_wf_def cached_clients_def List.map_filter_def)

lemma cache_wf_cong:
  "cache w' = cache w \<Longrightarrow> next_id w' = next_id w \<Longrightarrow> cache_wf w' = cache_wf w"
  by (simp add: cache_wf_def cached_clients_def)

lemma cache_wf_grow:
  "cache_wf w \<Longrightarrow> cache w' = cache w \<Longrightarrow> next_id w \<le> next_id w' \<Longrightarrow> cache_wf w'"
  by (auto simp: cache_wf_def cached_clients_def list_all_iff)

lemma cache_wf_None:
  assumes "cache_wf w" and "cache w' = cache w @ [(u, None)]" and "next_id w \<le> next_id w'"
  shows "cache_wf w'"
proof -
  have cl: "cached_clients w' = cached_clients w"
    using assms(2) by (simp add: cached_clients_def map_filter_append List.map_filter_def)
  from assms(1) have old: "\<forall>c' \<in> set (cached_clients w). client_id c' < next_id w"
    by (simp add: cache_wf_def list_all_iff)
  with assms(3) have new: "\<forall>c' \<in> set (cached_clients w). client_id c' < next_id w'"
    by (meson order_less_le_trans)
  from assms(1) have d: "distinct (map client_id (cached_clients w))"
    by (simp add: cache_wf_def)
  from assms(1) have b: "list_all (\<lambda>(k, v). case v of None \<Rightarrow> True | Some c \<Rightarrow> base_url c = k) (cache w)"
    by (simp add: cache_wf_def)
  show ?thesis
    unfolding cache_wf_def cl assms(2)
    using d new b by (simp add: list_all_iff)
qed

lemma cache_wf_Some:
  assumes "cache_wf w" and "cache w' = cache w @ [(u, Some c)]"
    and "client_id c = next_id w" and "base_url c = u" and "next_id w' = Suc (next_id w)"
  shows "cache_wf w'"
proof -
  have cl: "cached_clients w' = cached_clients w @ [c]"
    using assms(2) by (simp add: cached_clients_def map_filter_append List.map_filter_def)
  from assms(1) have old: "\<forall>c' \<in> set (cached_clients w). client_id c' < next_id w"
    by (simp add: cache_wf_def list_all_iff)
  then have fresh: "client_id c \<notin> client_id ` set (cached_clients w)"
    using assms(3) by auto
  from assms(1) have d: "distinct (map client_id (cached_clients w))"
    by (simp add: cache_wf_def)
  from assms(1) have b: "list_all (\<lambda>(k, v). case v of None \<Rightarrow> True | Some c \<Rightarrow> base_url c = k) (cache w)"
    by (simp add: cache_wf_def)
  show ?thesis
    unfolding cache_wf_def cl assms(2)
    using d fresh old b assms(3,4,5) by (auto simp: list_all_iff)
qed

lemma connect_wf:
  assumes "cache_wf w"
  shows "cache_wf (snd (get_docker_client_via_tcp d u w))"
proof (cases "map_of (cache w) u")
  case (Some v)
  with assms show ?thesis by (simp add: connect_hit)
next
  case None
  obtain r0 w0 where b: "get_docker_client_via_tcp_body d u w = (r0, w0)"
    by (cases "get_docker_client_via_tcp_body d u w")
  from body_result [of d u w] b
  have fr: "cache w0 = cache w" "next_id w \<le> next_id w0" by simp_all
  show ?thesis
  proof (cases r0)
    case (Ret v)
    then have eq: "snd (get_docker_client_via_tcp d u w) = w0\<lparr>cache := cache w0 @ [(u, v)]\<rparr>"
      using None b by (simp add: get_docker_client_via_tcp_def cache_resource_def)
    show ?thesis
    proof (cases v)
      case None
      show ?thesis unfolding eq None
        by (rule cache_wf_None [OF assms]) (simp_all add: fr)
    next
      case (Some c)
      from body_result [of d u w] b Ret Some
      have "client_id c = next_id w" "base_url c = u" "next_id w0 = Suc (next_id w)"
        by simp_all
      then show ?thesis unfolding eq Some
        by (intro cache_wf_Some [OF assms]) (simp_all add: fr)
    qed
  next
    case (Raise x)
    then have "snd (get_docker_client_via_tcp d u w) = w0"
      using None b by (simp add: get_docker_client_via_tcp_def cache_resource_def)
    with cache_wf_grow [OF assms fr] show ?thesis by simp
  next
    case Stop
    then have "snd (get_docker_client_via_tcp d u w) = w0"
      using None b by (simp add: get_docker_client_via_tcp_def cache_resource_def)
    with cache_wf_grow [OF assms fr] show ?thesis by simp
  qed
qed

lemma connection_wf:
  assumes "cache_wf w"
  shows "cache_wf (snd (connection d t inp w))"
proof (cases "mode_radio inp = LocalDockerTCP")
  case True
  obtain r w1 where c: "get_docker_client_via_tcp d (docker_host_input inp) w = (r, w1)"
    by (cases "get_docker_client_via_tcp d (docker_host_input inp) w")
  with connect_wf [OF assms, of d "docker_host_input inp"] have "cache_wf w1" by simp
  with True c show ?thesis
    by (cases r) (simp_all add: connection_def and_then_def st_stop_def ret_def)
next
  case False
  have "keeps_memo (connection d t inp)"
    using False unfolding connection_def
    by (auto intro!: keeps_rules keeps_run_ssh_command)
  then have "cache (snd (connection d t inp w)) = cache w"
    "next_id (snd (connection d t inp w)) = next_id w"
    by (simp_all add: keeps_memo_def)
  with assms cache_wf_cong show ?thesis by blast
qed

lemma main_wf: "cache_wf w \<Longrightarrow> cache_wf (snd (main d t inp w))"
  using cache_wf_cong [of "snd (main d t inp w)" "snd (connection d t inp w)"]
    main_memo [of d t inp w] connection_wf [of w d t inp]
  by simp

lemma runs_wf: "cache_wf w \<Longrightarrow> cache_wf (runs rs w)"
proof (induction rs arbitrary: w)
  case Nil
  then show ?case by simp
next
  case (Cons r rs)
  obtain d t inp where r: "r = (d, t, inp)" by (cases r)
  from Cons.prems have "cache_wf (snd (main d t inp w))" by (rule main_wf)
  from Cons.IH [OF this] r show ?case by simp
qed

lemma wf_lookup:
  assumes "cache_wf w" and "map_of (cache w) k = Some (Some c)"
  shows "c \<in> set (cached_clients w) \<and> base_url c = k"
proof -
  from assms(2) have m: "(k, Some c) \<in> set (cache w)" by (rule map_of_SomeD)
  then have "c \<in> set (cached_clients w)" by (auto simp: cached_clients_iff)
  moreover from assms(1) m have "base_url c = k"
    by (auto simp: cache_wf_def list_all_iff)
  ultimately show ?thesis by simp
qed

lemma wf_distinct_clients:
  assumes "cache_wf w" and "map_of (cache w) k = Some (Some c)"
    and "map_of (cache w) k' = Some (Some c')" and "k' \<noteq> k"
  shows "client_id c' \<noteq> client_id c"
proof -
  from wf_lookup [OF assms(1,2)] wf_lookup [OF assms(1,3)] assms(4)
  have "c \<in> set (cached_clients w)" "c' \<in> set (cached_clients w)" "c' \<noteq> c" by auto
  moreover from assms(1) have "inj_on client_id (set (cached_clients w))"
    by (simp add: cache_wf_def distinct_map)
  ultimately show ?thesis by (auto dest: inj_onD)
qed

section \<open>The container filter\<close>



section \<open>The image filter\<close>

text \<open>
  Claim C10. For every image listing and every non-empty query \<open>s\<close>, the image filter keeps
  exactly the images with some tag that contains \<open>s\<close> as it is written (case-sensitive
  substring), in the order of the listing; an image none of whose tags contains \<open>s\<close>
  exactly is left out, also when a tag matches up to letter case; the empty query returns
  the full listing.
\<close>

theorem filtered_img_case_sensitive:
  "(s \<noteq> [] \<longrightarrow> filtered_img s imgs = filter (\<lambda>i. \<exists>t \<in> set (tags i). sublist s t) imgs)
   \<and> (s \<noteq> [] \<longrightarrow> (\<forall>i. (\<forall>t \<in> set (tags i). \<not> sublist s t) \<longrightarrow> i \<notin> set (filtered_img s imgs)))
   \<and> filtered_img [] imgs = imgs"
  by (auto simp: filtered_img_def list_ex_iff str_in_sublist)

theorem filtered_img_case_sensitive_witness:
  "''nginx'' \<noteq> []
   \<and> map image_id (filtered_img ''nginx'' sample_images) = [''sha256:bbbb'']
   \<and> map image_id (filter (\<lambda>i. \<exists>t \<in> set (tags i). sublist ''nginx'' t) sample_images)
       = [''sha256:bbbb'']
   \<and> contains_ci ''Nginx:latest'' ''nginx''
   \<and> \<not> (\<exists>t \<in> set (tags (hd sample_images)). sublist ''nginx'' t)
   \<and> hd sample_images \<notin> set (filtered_img ''nginx'' sample_images)
   \<and> filtered_img [] sample_images = sample_images"
proof -
  have ne: "''nginx'' \<noteq> []" by simp
  have run: "map image_id (filtered_img ''nginx'' sample_images) = [''sha256:bbbb'']"
    by code_simp
  have ci: "contains_ci ''Nginx:latest'' ''nginx''"
    unfolding contains_ci_lower by code_simp
  have no: "\<forall>t \<in> set (tags (hd sample_images)). \<not> sublist ''nginx'' t"
    by (simp add: sample_images_def flip: str_in_sublist)
  from filtered_img_case_sensitive [of "''nginx''" sample_images] ne run ci no
  show ?thesis by auto
qed

section \<open>The remote command\<close>



section \<open>The memoized connection\<close>

text \<open>
  Claim C6. In every state reached by runs of the script from an empty memo table, a call
  of \<open>get_docker_client_via_tcp\<close> that returns a client for a URI stores it under that URI
  string; every later call with the same URI, whatever the engine does by then and after any
  further runs, returns that same client object and leaves the state as it is, so no call
  of the handshake is made; and a client returned for a different URI has a different
  identity.
\<close>

theorem connect_tcp_memoized:
  "cache wz = [] \<and> w = runs rsz wz \<and> get_docker_client_via_tcp d u w = (Ret (Some c), wa)
   \<longrightarrow> map_of (cache wa) u = Some (Some c)
       \<and> get_docker_client_via_tcp d' u wa = (Ret (Some c), wa)
       \<and> get_docker_client_via_tcp d' u (runs rs wa) = (Ret (Some c), runs rs wa)
       \<and> (u' \<noteq> u \<and> get_docker_client_via_tcp d' u' (runs rs wa) = (Ret (Some c'), wb)
            \<longrightarrow> client_id c' \<noteq> client_id c)"
proof (intro impI)
  assume a: "cache wz = [] \<and> w = runs rsz wz \<and> get_docker_client_via_tcp d u w = (Ret (Some c), wa)"
  from a have z: "cache wz = []" by (rule conjunct1)
  from a have wdef: "w = runs rsz wz" by (rule conjunct1 [OF conjunct2])
  from a have call: "get_docker_client_via_tcp d u w = (Ret (Some c), wa)"
    by (rule conjunct2 [OF conjunct2])
  have wf: "cache_wf w" unfolding wdef by (rule runs_wf [OF cache_wf_empty [OF z]])
  from connect_wf [OF wf, of d u] call have wfa: "cache_wf wa" by simp
  from connect_result_cached [OF call] have hit: "map_of (cache wa) u = Some (Some c)" .
  from runs_keeps [OF hit] have later: "map_of (cache (runs rs wa)) u = Some (Some c)" .
  have other: "client_id c' \<noteq> client_id c"
    if h: "u' \<noteq> u \<and> get_docker_client_via_tcp d' u' (runs rs wa) = (Ret (Some c'), wb)"
  proof -
    from h have call': "get_docker_client_via_tcp d' u' (runs rs wa) = (Ret (Some c'), wb)" by simp
    from connect_wf [OF runs_wf [OF wfa], of d' u' rs] call' have "cache_wf wb" by simp
    moreover from connect_result_cached [OF call'] have "map_of (cache wb) u' = Some (Some c')" .
    moreover from connect_keeps [OF later, of d' u'] call' have "map_of (cache wb) u = Some (Some c)"
      by simp
    ultimately show ?thesis using h wf_distinct_clients by blast
  qed
  from hit later other show "map_of (cache wa) u = Some (Some c)
       \<and> get_docker_client_via_tcp d' u wa = (Ret (Some c), wa)
       \<and> get_docker_client_via_tcp d' u (runs rs wa) = (Ret (Some c), runs rs wa)
       \<and> (u' \<noteq> u \<and> get_docker_client_via_tcp d' u' (runs rs wa) = (Ret (Some c'), wb)
            \<longrightarrow> client_id c' \<noteq> client_id c)"
    by (simp add: connect_hit)
qed

theorem connect_tcp_memoized_witness:
  "cache sample_world = []
   \<and> fst (get_docker_client_via_tcp sample_docker local_uri sample_world)
       = Ret (Some \<lparr>client_id = 0, base_url = local_uri\<rparr>)
   \<and> calls (snd (get_docker_client_via_tcp sample_docker local_uri sample_world))
       = [DockerClientInit local_uri, ClientPing local_uri]
   \<and> get_docker_client_via_tcp open_docker local_uri
         (snd (get_docker_client_via_tcp sample_docker local_uri sample_world))
       = (Ret (Some \<lparr>client_id = 0, base_url = local_uri\<rparr>),
          snd (get_docker_client_via_tcp sample_docker local_uri sample_world))
   \<and> fst (get_docker_client_via_tcp open_docker remote_uri
         (snd (get_docker_client_via_tcp sample_docker local_uri sample_world)))
       = Ret (Some \<lparr>client_id = 1, base_url = remote_uri\<rparr>)
   \<and> client_id \<lparr>client_id = 1, base_url = remote_uri\<rparr>
       \<noteq> client_id \<lparr>client_id = 0, base_url = local_uri\<rparr>"
proof -
  let ?c = "\<lparr>client_id = 0, base_url = local_uri\<rparr>"
  let ?c' = "\<lparr>client_id = 1, base_url = remote_uri\<rparr>"
  let ?wa = "snd (get_docker_client_via_tcp sample_docker local_uri sample_world)"
  let ?wb = "snd (get_docker_client_via_tcp open_docker remote_uri ?wa)"
  have z: "cache sample_world = []" by (simp add: sample_world_def)
  have r: "sample_world = runs [] sample_world" by simp
  have f: "fst (get_docker_client_via_tcp sample_docker local_uri sample_world) = Ret (Some ?c)"
    by code_simp
  then have call: "get_docker_client_via_tcp sample_docker local_uri sample_world = (Ret (Some ?c), ?wa)"
    by (simp add: prod_eq_iff)
  have cs: "calls ?wa = [DockerClientInit local_uri, ClientPing local_uri]"
    by code_simp
  have f': "fst (get_docker_client_via_tcp open_docker remote_uri ?wa) = Ret (Some ?c')"
    by code_simp
  then have call': "get_docker_client_via_tcp open_docker remote_uri (runs [] ?wa) = (Ret (Some ?c'), ?wb)"
    by (simp add: prod_eq_iff)
  have ne: "remote_uri \<noteq> local_uri" by (simp add: remote_uri_def local_uri_def)
  from connect_tcp_memoized [where wz = sample_world and rsz = "[]" and w = sample_world
      and d = sample_docker and u = local_uri and c = ?c and wa = ?wa and d' = open_docker
      and rs = "[]" and u' = remote_uri and c' = ?c' and wb = ?wb] z r call call' ne
  have "get_docker_client_via_tcp open_docker local_uri ?wa = (Ret (Some ?c), ?wa)"
    and "client_id ?c' \<noteq> client_id ?c"
    by blast+
  with z f cs f' show ?thesis by blast
qed

section \<open>The memoized failure\<close>



section \<open>The connection gate\<close>




section \<open>Listings in SSH mode\<close>

text \<open>
  Claim C8. In SSH mode the container listing and the image listing are the empty list,
  for every engine, every state of it and every search text, and so are the filtered
  listings; the containers tab returns the empty listing and shows that no containers were
  found, neither tab calls the engine, and every call the run makes is an SSH call.
\<close>

theorem ssh_mode_listings_empty:
  "containers_listing d SSHToRemoteDocker v w = (Ret [], w)
   \<and> images_listing d SSHToRemoteDocker v w = (Ret [], w)
   \<and> filtered s [] = []
   \<and> filtered_img s [] = []
   \<and> (mode_radio inp = SSHToRemoteDocker
        \<longrightarrow> fst (containers_tab d inp None w) = Ret []
            \<and> engine (snd (containers_tab d inp None w)) = engine w
            \<and> calls (snd (containers_tab d inp None w)) = calls w
            \<and> take (Suc (length (ui w))) (ui (snd (containers_tab d inp None w)))
                = ui w @ [StInfo ''No containers found.'']
            \<and> fst (images_tab d inp None w) = Ret ()
            \<and> engine (snd (images_tab d inp None w)) = engine w
            \<and> calls (snd (images_tab d inp None w)) = calls w
            \<and> list_all is_ssh_call (drop (length (calls w)) (calls (snd (main d t inp w)))))"
proof (intro conjI impI)
  show "containers_listing d SSHToRemoteDocker v w = (Ret [], w)"
    by (simp add: containers_listing_def ret_def)
  show "images_listing d SSHToRemoteDocker v w = (Ret [], w)"
    by (simp add: images_listing_def ret_def)
  show "filtered s [] = []" by (simp add: filtered_def)
  show "filtered_img s [] = []" by (simp add: filtered_img_def)
next
  assume s: "mode_radio inp = SSHToRemoteDocker"
  note c = containers_tab_ssh [OF s, of d w]
  note i = images_tab_ssh [OF s, of d w]
  show "fst (containers_tab d inp None w) = Ret []" by (simp add: c)
  show "engine (snd (containers_tab d inp None w)) = engine w" by (simp add: c)
  show "calls (snd (containers_tab d inp None w)) = calls w" by (simp add: c)
  show "take (Suc (length (ui w))) (ui (snd (containers_tab d inp None w)))
      = ui w @ [StInfo ''No containers found.'']" by (simp add: c)
  show "fst (images_tab d inp None w) = Ret ()" by (simp add: i)
  show "engine (snd (images_tab d inp None w)) = engine w" by (simp add: i)
  show "calls (snd (images_tab d inp None w)) = calls w" by (simp add: i)
  from main_ssh [OF s, of d t w] connection_ssh [OF s, of d t w]
  show "list_all is_ssh_call (drop (length (calls w)) (calls (snd (main d t inp w))))"
    by simp
qed

theorem ssh_mode_listings_empty_witness:
  "engine sample_world = sample_containers
   \<and> fst (containers_tab sample_docker (ssh_inputs\<lparr>search_input := ''web''\<rparr>) None sample_world)
       = Ret []
   \<and> take (Suc 0) (ui (snd (containers_tab sample_docker (ssh_inputs\<lparr>search_input := ''web''\<rparr>)
         None sample_world)))
       = [StInfo ''No containers found.'']
   \<and> fst (images_tab sample_docker (ssh_inputs\<lparr>search_img_input := ''nginx''\<rparr>) None sample_world)
       = Ret ()
   \<and> calls (snd (images_tab sample_docker (ssh_inputs\<lparr>search_img_input := ''nginx''\<rparr>) None
         sample_world)) = []
   \<and> calls (snd (main sample_docker sample_ssh (ssh_inputs\<lparr>test_ssh_button := True\<rparr>) sample_world))
       = [SshConnect ''10.0.0.5'' ''root'', SshExecCommand ''10.0.0.5'' ''docker ps -a'',
          SshReadStdout, SshReadStderr, SshClose]"
proof -
  let ?i = "ssh_inputs\<lparr>search_input := ''web''\<rparr>"
  let ?j = "ssh_inputs\<lparr>search_img_input := ''nginx''\<rparr>"
  have m: "mode_radio ?i = SSHToRemoteDocker" "mode_radio ?j = SSHToRemoteDocker"
    by (simp_all add: ssh_inputs_def idle_inputs_def)
  have w0: "engine sample_world = sample_containers" "ui sample_world = []"
    "calls sample_world = []"
    by (simp_all add: sample_world_def)
  have run: "calls (snd (main sample_docker sample_ssh (ssh_inputs\<lparr>test_ssh_button := True\<rparr>) sample_world))
       = [SshConnect ''10.0.0.5'' ''root'', SshExecCommand ''10.0.0.5'' ''docker ps -a'',
          SshReadStdout, SshReadStderr, SshClose]"
    by code_simp
  from ssh_mode_listings_empty [of sample_docker _ sample_world _ ?i sample_ssh] m w0
  have a: "fst (containers_tab sample_docker ?i None sample_world) = Ret []"
    "take (Suc 0) (ui (snd (containers_tab sample_docker ?i None sample_world)))
       = [StInfo ''No containers found.'']"
    by simp_all
  from ssh_mode_listings_empty [of sample_docker _ sample_world _ ?j sample_ssh] m w0
  have b: "fst (images_tab sample_docker ?j None sample_world) = Ret ()"
    "calls (snd (images_tab sample_docker ?j None sample_world)) = []"
    by simp_all
  from a b w0 run show ?thesis by simp
qed

section \<open>Failures of the mutating intents\<close>

text \<open>
  Claim C1 says that every mutating intent turns a failure of the engine into a text on the
  page. Create and Run, the image remove button and Pull Image do: they return normally
  whatever happens inside, and a failing engine call leaves its message as an error on the
  page. The Start, Stop, Restart and Remove buttons of a container do not: when the engine
  call of the clicked button fails, the exception leaves the handler and nothing is shown.
\<close>

theorem mutating_intents_error_handling:
  "fst (create_new_container d inp v w) = Ret ()
   \<and> fst (remove_image d v i w) = Ret ()
   \<and> fst (pull_new_image d inp v w) = Ret ()
   \<and> (create_run_button inp
        \<and> containers_run d cl (img_input inp)
             (if cmd_input inp \<noteq> [] then Some (cmd_input inp) else None) (engine w) = (Inl x, e')
        \<longrightarrow> ui (snd (create_new_container d inp (Some cl) w)) = ui w @ [StError (py_str x)])
   \<and> (images_remove d cl (image_id i) (engine w) = (Inl x, e')
        \<longrightarrow> ui (snd (remove_image d (Some cl) i w)) = ui w @ [StError (py_str x)])
   \<and> (pull_button inp \<and> images_pull d cl (new_image_input inp) (engine w) = (Inl x, e')
        \<longrightarrow> ui (snd (pull_new_image d inp (Some cl) w)) = ui w @ [StError (py_str x)])
   \<and> (start_button inp \<and> container_start d (cid c) (engine w) = (Inl x, e')
        \<longrightarrow> container_buttons d inp c w
              = (Raise x, w\<lparr>engine := e', calls := calls w @ [ContainerStart (cid c)]\<rparr>))
   \<and> (\<not> start_button inp \<and> stop_button inp \<and> container_stop d (cid c) (engine w) = (Inl x, e')
        \<longrightarrow> container_buttons d inp c w
              = (Raise x, w\<lparr>engine := e', calls := calls w @ [ContainerStop (cid c)]\<rparr>))
   \<and> (\<not> start_button inp \<and> \<not> stop_button inp \<and> restart_button inp
        \<and> container_restart d (cid c) (engine w) = (Inl x, e')
        \<longrightarrow> container_buttons d inp c w
              = (Raise x, w\<lparr>engine := e', calls := calls w @ [ContainerRestart (cid c)]\<rparr>))
   \<and> (\<not> start_button inp \<and> \<not> stop_button inp \<and> \<not> restart_button inp \<and> remove_button inp
        \<and> container_remove d (cid c) (engine w) = (Inl x, e')
        \<longrightarrow> container_buttons d inp c w
              = (Raise x, w\<lparr>engine := e', calls := calls w @ [ContainerRemove (cid c)]\<rparr>))"
  by (simp add: create_returns remove_image_returns pull_returns create_caught
      remove_image_caught pull_caught start_fails stop_fails restart_fails remove_fails)

theorem mutating_intents_error_handling_witness:
  "container_buttons sample_docker (idle_inputs\<lparr>start_button := True\<rparr>) db_container sample_world
     = (Raise (APIError ''port is already allocated''),
        sample_world\<lparr>engine := sample_containers, calls := [ContainerStart ''c2c2c2c2c2c2c2c2'']\<rparr>)
   \<and> fst (main sample_docker sample_ssh
            (idle_inputs\<lparr>select_container_box := 1, start_button := True\<rparr>) sample_world)
       = Raise (APIError ''port is already allocated'')
   \<and> filter is_error (ui (snd (main sample_docker sample_ssh
            (idle_inputs\<lparr>select_container_box := 1, start_button := True\<rparr>) sample_world))) = []
   \<and> ui (snd (create_new_container sample_docker
            (idle_inputs\<lparr>img_input := ''nope'', create_run_button := True\<rparr>)
            (Some \<lparr>client_id = 0, base_url = ''tcp://localhost:2375''\<rparr>) sample_world))
       = [StError ''pull access denied for nope'']"
proof -
  let ?i = "idle_inputs\<lparr>start_button := True\<rparr>"
  let ?j = "idle_inputs\<lparr>img_input := ''nope'', create_run_button := True\<rparr>"
  let ?cl = "\<lparr>client_id = 0, base_url = ''tcp://localhost:2375''\<rparr>"
  have h1: "start_button ?i" by (simp add: idle_inputs_def)
  have h2: "container_start sample_docker (cid db_container) (engine sample_world)
      = (Inl (APIError ''port is already allocated''), sample_containers)"
    by (simp add: sample_docker_def db_container_def sample_world_def)
  have h3: "create_run_button ?j" by (simp add: idle_inputs_def)
  have h4: "containers_run sample_docker ?cl (img_input ?j)
       (if cmd_input ?j \<noteq> [] then Some (cmd_input ?j) else None) (engine sample_world)
      = (Inl (APIError ''pull access denied for nope''), sample_containers)"
    by (simp add: sample_docker_def idle_inputs_def sample_world_def)
  have w0: "calls sample_world = []" "ui sample_world = []"
    by (simp_all add: sample_world_def)
  have k: "cid db_container = ''c2c2c2c2c2c2c2c2''" by (simp add: db_container_def)
  have run: "fst (main sample_docker sample_ssh
            (idle_inputs\<lparr>select_container_box := 1, start_button := True\<rparr>) sample_world)
       = Raise (APIError ''port is already allocated'')"
    by code_simp
  have shown: "filter is_error (ui (snd (main sample_docker sample_ssh
            (idle_inputs\<lparr>select_container_box := 1, start_button := True\<rparr>) sample_world))) = []"
    by code_simp
  from mutating_intents_error_handling [where d = sample_docker and inp = ?i and c = db_container
      and w = sample_world and x = "APIError ''port is already allocated''" and e' = sample_containers]
    h1 h2 w0 k
  have a: "container_buttons sample_docker ?i db_container sample_world
     = (Raise (APIError ''port is already allocated''),
        sample_world\<lparr>engine := sample_containers, calls := [ContainerStart ''c2c2c2c2c2c2c2c2'']\<rparr>)"
    by simp
  from mutating_intents_error_handling [where d = sample_docker and inp = ?j and cl = ?cl
      and w = sample_world and x = "APIError ''pull access denied for nope''" and e' = sample_containers]
    h3 h4 w0
  have b: "ui (snd (create_new_container sample_docker ?j (Some ?cl) sample_world))
       = [StError ''pull access denied for nope'']"
    by simp
  from a b run shown show ?thesis by simp
qed

section \<open>The statistics panel\<close>

text \<open>
  Claim C2 says that the statistics never raise. They do: a failure of the engine call, and
  a sample without \<open>memory_stats.usage\<close> (or without the CPU counter), leave the handler as
  an exception, with nothing shown. When the sample is complete, the page gets one pair taken
  from that single sample: the usage divided by \<open>2 ^ 20\<close> and the engine's
  \<open>total_usage\<close>.
\<close>

theorem live_stats_outcomes:
  "(live_stats_checkbox inp \<and> container_stats d (cid c) (engine w) = (Inl x, e')
      \<longrightarrow> live_stats d inp c w
            = (Raise x, w\<lparr>engine := e', calls := calls w @ [ContainerStats (cid c)]\<rparr>))
   \<and> (live_stats_checkbox inp \<and> container_stats d (cid c) (engine w) = (Inr s, e')
        \<and> subscript s ''memory_stats'' = Inr ms \<and> subscript ms ''usage'' = Inl x
      \<longrightarrow> live_stats d inp c w
            = (Raise x, w\<lparr>engine := e', calls := calls w @ [ContainerStats (cid c)]\<rparr>))
   \<and> (live_stats_checkbox inp \<and> container_stats d (cid c) (engine w) = (Inr s, e')
        \<and> stats_values s = Inl x
      \<longrightarrow> live_stats d inp c w
            = (Raise x, w\<lparr>engine := e', calls := calls w @ [ContainerStats (cid c)]\<rparr>))
   \<and> (live_stats_checkbox inp \<and> container_stats d (cid c) (engine w) = (Inr s, e')
        \<and> stats_values s = Inr (mem, cpu)
      \<longrightarrow> live_stats d inp c w
            = (Ret (), w\<lparr>engine := e', calls := calls w @ [ContainerStats (cid c)],
                 ui := ui w @ [StInfoStats mem cpu]\<rparr>))
   \<and> (stats_values s = Inr (mem, cpu) \<and> subscript s ''memory_stats'' = Inr ms
        \<and> subscript ms ''usage'' = Inr (JInt n)
      \<longrightarrow> mem = of_int n / 2 ^ 20
          \<and> (\<exists>cs cu. subscript s ''cpu_stats'' = Inr cs \<and> subscript cs ''cpu_usage'' = Inr cu
                \<and> subscript cu ''total_usage'' = Inr cpu))"
  using live_stats_engine_fails [of inp d c w x e'] live_stats_sample_fails [of inp d c w s e' x]
    live_stats_shows [of inp d c w s e' mem cpu] stats_values_missing_usage [of s ms x]
    stats_values_pair [of s mem cpu ms n]
  by blast

theorem live_stats_outcomes_witness:
  "live_stats sample_docker (idle_inputs\<lparr>live_stats_checkbox := True\<rparr>) db_container sample_world
     = (Raise (KeyError ''usage''),
        sample_world\<lparr>engine := sample_containers, calls := [ContainerStats ''c2c2c2c2c2c2c2c2'']\<rparr>)
   \<and> fst (main sample_docker sample_ssh
            (idle_inputs\<lparr>select_container_box := 1, live_stats_checkbox := True\<rparr>) sample_world)
       = Raise (KeyError ''usage'')
   \<and> filter is_error (ui (snd (main sample_docker sample_ssh
            (idle_inputs\<lparr>select_container_box := 1, live_stats_checkbox := True\<rparr>) sample_world))) = []
   \<and> live_stats sample_docker (idle_inputs\<lparr>live_stats_checkbox := True\<rparr>) web_container sample_world
     = (Ret (),
        sample_world\<lparr>engine := sample_containers, calls := [ContainerStats ''c1c1c1c1c1c1c1c1''],
          ui := [StInfoStats 50 (JInt 123456789)]\<rparr>)"
proof -
  let ?i = "idle_inputs\<lparr>live_stats_checkbox := True\<rparr>"
  let ?s = "sample_stats ''c2c2c2c2c2c2c2c2'' sample_containers"
  let ?s' = "sample_stats ''c1c1c1c1c1c1c1c1'' sample_containers"
  have h1: "live_stats_checkbox ?i" by (simp add: idle_inputs_def)
  have k: "cid db_container = ''c2c2c2c2c2c2c2c2''" "cid web_container = ''c1c1c1c1c1c1c1c1''"
    by (simp_all add: db_container_def web_container_def)
  have w0: "calls sample_world = []" "ui sample_world = []" "engine sample_world = sample_containers"
    by (simp_all add: sample_world_def)
  have h2: "container_stats sample_docker (cid db_container) (engine sample_world)
      = (Inr ?s, sample_containers)"
    by (simp add: sample_docker_def k w0)
  have h3: "subscript ?s ''memory_stats'' = Inr (JDict [])"
    by code_simp
  have h4: "subscript (JDict []) ''usage'' = Inl (KeyError ''usage'')"
    by simp
  have h5: "container_stats sample_docker (cid web_container) (engine sample_world)
      = (Inr ?s', sample_containers)"
    by (simp add: sample_docker_def k w0)
  have h6: "stats_values ?s' = Inr (50, JInt 123456789)"
    by code_simp
  have run: "fst (main sample_docker sample_ssh
            (idle_inputs\<lparr>select_container_box := 1, live_stats_checkbox := True\<rparr>) sample_world)
       = Raise (KeyError ''usage'')"
    by code_simp
  have shown: "filter is_error (ui (snd (main sample_docker sample_ssh
            (idle_inputs\<lparr>select_container_box := 1, live_stats_checkbox := True\<rparr>) sample_world))) = []"
    by code_simp
  from live_stats_outcomes [where inp = ?i and d = sample_docker and c = db_container
      and w = sample_world and s = ?s and e' = sample_containers and ms = "JDict []"
      and x = "KeyError ''usage''"] h1 h2 h3 h4
  have a: "live_stats sample_docker ?i db_container sample_world
     = (Raise (KeyError ''usage''),
        sample_world\<lparr>engine := sample_containers, calls := [ContainerStats ''c2c2c2c2c2c2c2c2'']\<rparr>)"
    by (simp add: k w0)
  from live_stats_outcomes [where inp = ?i and d = sample_docker and c = web_container
      and w = sample_world and s = ?s' and e' = sample_containers and mem = 50
      and cpu = "JInt 123456789"] h1 h5 h6
  have b: "live_stats sample_docker ?i web_container sample_world
     = (Ret (),
        sample_world\<lparr>engine := sample_containers, calls := [ContainerStats ''c1c1c1c1c1c1c1c1''],
          ui := [StInfoStats 50 (JInt 123456789)]\<rparr>)"
    by (simp add: k w0)
  from a b run shown show ?thesis by simp
qed

section \<open>Exec in a container that does not run\<close>

text \<open>
  Claim C3 says that a refused exec is reported as a text. It is not: when the engine
  refuses to create the exec session, the exception leaves the handler, the page is left as
  it was and \<open>exec_start\<close> is not called. The engine's state is the one the refused call
  left, so the listed status of the container is not changed by the program.
\<close>

theorem exec_failure_propagates:
  "mode_radio inp = LocalDockerTCP \<and> containers \<noteq> []
   \<and> selectbox (map name containers) (exec_container_box inp) = Some n
   \<and> find (\<lambda>cc. name cc = n) containers = Some c
   \<and> run_command_button inp
   \<and> api_exec_create d cl (cid c) (command_input inp) (engine w) = (Inl x, e')
   \<longrightarrow> exec_tab d inp (Some cl) containers w
         = (Raise x, w\<lparr>engine := e', calls := calls w @ [ExecCreate (cid c) (command_input inp)]\<rparr>)
       \<and> ui (snd (exec_tab d inp (Some cl) containers w)) = ui w
       \<and> engine (snd (exec_tab d inp (Some cl) containers w)) = e'"
proof
  assume a: "mode_radio inp = LocalDockerTCP \<and> containers \<noteq> []
   \<and> selectbox (map name containers) (exec_container_box inp) = Some n
   \<and> find (\<lambda>cc. name cc = n) containers = Some c
   \<and> run_command_button inp
   \<and> api_exec_create d cl (cid c) (command_input inp) (engine w) = (Inl x, e')"
  then have "exec_tab d inp (Some cl) containers w
         = (Raise x, w\<lparr>engine := e', calls := calls w @ [ExecCreate (cid c) (command_input inp)]\<rparr>)"
    using exec_create_fails [of inp containers n c d cl w x e'] by blast
  then show "exec_tab d inp (Some cl) containers w
         = (Raise x, w\<lparr>engine := e', calls := calls w @ [ExecCreate (cid c) (command_input inp)]\<rparr>)
       \<and> ui (snd (exec_tab d inp (Some cl) containers w)) = ui w
       \<and> engine (snd (exec_tab d inp (Some cl) containers w)) = e'"
    by simp
qed

theorem exec_failure_propagates_witness:
  "exec_tab sample_docker (idle_inputs\<lparr>exec_container_box := 1, run_command_button := True\<rparr>)
      (Some \<lparr>client_id = 0, base_url = ''tcp://localhost:2375''\<rparr>) sample_containers sample_world
     = (Raise (APIError ''409 Conflict: container is not running''),
        sample_world\<lparr>engine := sample_containers,
          calls := [ExecCreate ''c2c2c2c2c2c2c2c2'' ''ls -l'']\<rparr>)
   \<and> fst (main sample_docker sample_ssh
            (idle_inputs\<lparr>exec_container_box := 1, run_command_button := True\<rparr>) sample_world)
       = Raise (APIError ''409 Conflict: container is not running'')
   \<and> filter is_error (ui (snd (main sample_docker sample_ssh
            (idle_inputs\<lparr>exec_container_box := 1, run_command_button := True\<rparr>) sample_world))) = []
   \<and> engine (snd (main sample_docker sample_ssh
            (idle_inputs\<lparr>exec_container_box := 1, run_command_button := True\<rparr>) sample_world))
       = sample_containers"
proof -
  let ?i = "idle_inputs\<lparr>exec_container_box := 1, run_command_button := True\<rparr>"
  let ?cl = "\<lparr>client_id = 0, base_url = ''tcp://localhost:2375''\<rparr>"
  let ?x = "APIError ''409 Conflict: container is not running''"
  have h1: "mode_radio ?i = LocalDockerTCP" "run_command_button ?i" "command_input ?i = ''ls -l''"
    by (simp_all add: idle_inputs_def)
  have h2: "sample_containers \<noteq> []" by (simp add: sample_containers_def)
  have h3: "selectbox (map name sample_containers) (exec_container_box ?i) = Some ''db''"
    by code_simp
  have h4: "find (\<lambda>cc. name cc = ''db'') sample_containers = Some db_container"
    by code_simp
  have k: "cid db_container = ''c2c2c2c2c2c2c2c2''" by (simp add: db_container_def)
  have w0: "calls sample_world = []" "engine sample_world = sample_containers"
    by (simp_all add: sample_world_def)
  have h5: "api_exec_create sample_docker ?cl (cid db_container) (command_input ?i) (engine sample_world)
      = (Inl ?x, sample_containers)"
    unfolding k w0 h1 by code_simp
  have run: "fst (main sample_docker sample_ssh ?i sample_world) = Raise ?x"
    by code_simp
  have shown: "filter is_error (ui (snd (main sample_docker sample_ssh ?i sample_world))) = []"
    by code_simp
  have same: "engine (snd (main sample_docker sample_ssh ?i sample_world)) = sample_containers"
    by code_simp
  from exec_failure_propagates [where inp = ?i and containers = sample_containers
      and n = "''db''" and c = db_container and d = sample_docker and cl = ?cl
      and w = sample_world and x = ?x and e' = sample_containers] h1 h2 h3 h4 h5
  have a: "exec_tab sample_docker ?i (Some ?cl) sample_containers sample_world
     = (Raise ?x, sample_world\<lparr>engine := sample_containers,
          calls := [ExecCreate ''c2c2c2c2c2c2c2c2'' ''ls -l'']\<rparr>)"
    by (simp add: k w0)
  from a run shown same show ?thesis by simp
qed

end
